theory Spec2Isabelle
  imports Complex_Main
begin

section \<open>Starfield: a shallow embedding of starfiel.py\<close>

text \<open>
  Python floats are modelled as real numbers: every property below rests on comparisons,
  clamping and interpolation, not on rounding. The one function whose argument the
  properties range over freely, \<open>color_gradient\<close>, takes a float that may also be infinite
  or NaN. Calls of the random module are modelled by
  passing the drawn numbers in: \<open>random.uniform(a, b)\<close> is \<open>a + (b - a) * random()\<close> with
  \<open>random()\<close> in \<open>[0, 1)\<close>, so a draw is a unit value \<open>u\<close> and theorems assume \<open>unit u\<close>.
\<close>

subsection \<open>Config\<close>

definition WIDTH :: real where
  "WIDTH = 1000"

definition HEIGHT :: real where
  "HEIGHT = 700"

definition BASE_SPEED :: real where
  "BASE_SPEED = 0.8"

definition BOOST_MULT :: real where
  "BOOST_MULT = 3.5"

definition TRAIL_LENGTH :: nat where
  "TRAIL_LENGTH = 6"

subsection \<open>Helpers\<close>

definition clamp :: "real \<Rightarrow> real \<Rightarrow> real \<Rightarrow> real" where
  "clamp v a b = max a (min b v)"

definition lerp :: "real \<Rightarrow> real \<Rightarrow> real \<Rightarrow> real" where
  "lerp a b t = a + (b - a) * t"

text \<open>Python's \<open>int()\<close> on a float truncates towards zero.\<close>

definition py_int :: "real \<Rightarrow> int" where
  "py_int r = (if 0 \<le> r then \<lfloor>r\<rfloor> else \<lceil>r\<rceil>)"

text \<open>\<open>random.uniform(a, b)\<close> for the value \<open>u\<close> returned by \<open>random()\<close>.\<close>

definition uniform :: "real \<Rightarrow> real \<Rightarrow> real \<Rightarrow> real" where
  "uniform a b u = a + (b - a) * u"

definition unit :: "real \<Rightarrow> bool" where
  "unit u = (0 \<le> u \<and> u < 1)"

datatype py_error = ZeroDivisionError | ValueError | OverflowError | OtherException

text \<open>
  A Python float: a finite number, an infinity or NaN. The comparisons \<open>t < c\<close> and
  \<open>t > c\<close> with a finite constant \<open>c\<close> are false at NaN.
\<close>

datatype py_float = Finite real | PosInf | NegInf | NaN

definition float_lt :: "py_float \<Rightarrow> real \<Rightarrow> bool" where
  "float_lt t c = (case t of Finite r \<Rightarrow> r < c | PosInf \<Rightarrow> False | NegInf \<Rightarrow> True | NaN \<Rightarrow> False)"

definition float_gt :: "py_float \<Rightarrow> real \<Rightarrow> bool" where
  "float_gt t c = (case t of Finite r \<Rightarrow> r > c | PosInf \<Rightarrow> True | NegInf \<Rightarrow> False | NaN \<Rightarrow> False)"

text \<open>
  The three return expressions of \<open>color_gradient\<close>, one per branch, each a function of
  the clamped \<open>t\<close>, and the \<open>if\<close>/\<open>elif\<close>/\<open>else\<close> chain that chooses among them.
\<close>

definition blue_white :: "real \<Rightarrow> int \<times> int \<times> int" where
  "blue_white t =
     (let tt = t / 0.33
      in (py_int (lerp 80 255 tt), py_int (lerp 120 255 tt), py_int (lerp 200 255 tt)))"

definition white_yellow :: "real \<Rightarrow> int \<times> int \<times> int" where
  "white_yellow t =
     (let tt = (t - 0.33) / 0.33
      in (py_int (lerp 255 255 tt), py_int (lerp 255 220 tt), py_int (lerp 255 80 tt)))"

definition yellow_red :: "real \<Rightarrow> int \<times> int \<times> int" where
  "yellow_red t =
     (let tt = (t - 0.66) / 0.34
      in (py_int (lerp 255 255 tt), py_int (lerp 220 100 tt), py_int (lerp 80 40 tt)))"

definition gradient_segments :: "real \<Rightarrow> int \<times> int \<times> int" where
  "gradient_segments t =
     (if t < 0.33 then blue_white t
      else if t < 0.66 then white_yellow t
      else yellow_red t)"

text \<open>
  \<open>color_gradient\<close>. After the two clamps a finite \<open>t\<close> runs through the chain. At NaN
  neither clamp fires and every comparison of the chain is false, so the \<open>else\<close> branch
  computes \<open>tt = NaN\<close> and \<open>int(nan)\<close> raises ValueError. The infinities are clamped to 0
  and 1 and do not reach the chain (there \<open>int(nan)\<close> and \<open>int(-inf)\<close> would raise).
\<close>

definition color_gradient :: "py_float \<Rightarrow> py_error + (int \<times> int \<times> int)" where
  "color_gradient t0 =
     (let t1 = (if float_lt t0 0 then Finite 0 else t0);
          t = (if float_gt t1 1 then Finite 1 else t1)
      in case t of
           Finite r \<Rightarrow> Inr (gradient_segments r)
         | NaN \<Rightarrow> Inl ValueError
         | PosInf \<Rightarrow> Inl ValueError
         | NegInf \<Rightarrow> Inl OverflowError)"

definition red :: "int \<times> int \<times> int \<Rightarrow> int" where
  "red c = fst c"

definition green :: "int \<times> int \<times> int \<Rightarrow> int" where
  "green c = fst (snd c)"

definition blue :: "int \<times> int \<times> int \<Rightarrow> int" where
  "blue c = snd (snd c)"

subsection \<open>Errors and draw calls\<close>

datatype surface = Screen | TrailSurf

text \<open>
  A call of \<open>pygame.draw.circle(surface, color, center, radius)\<close> or of
  \<open>pygame.draw.line(surface, color, start, end, width)\<close>. A color is the tuple the source
  passes (three components, or four with the alpha appended).
\<close>

datatype draw_call =
  Circle surface "int list" "int \<times> int" int
| Line surface "int list" "real \<times> real" "real \<times> real" int

definition rgb :: "int \<times> int \<times> int \<Rightarrow> int list" where
  "rgb c = [red c, green c, blue c]"

text \<open>Every coordinate pair a draw call receives.\<close>

fun draw_coords :: "draw_call \<Rightarrow> (real \<times> real) list" where
  "draw_coords (Circle sf col (cx, cy) rad) = [(of_int cx, of_int cy)]"
| "draw_coords (Line sf col a b wd) = [a, b]"

definition on_screen :: "real \<times> real \<Rightarrow> bool" where
  "on_screen p = (0 \<le> fst p \<and> fst p < WIDTH \<and> 0 \<le> snd p \<and> snd p < HEIGHT)"

subsection \<open>class Star\<close>

record Star =
  w :: real
  h :: real
  x :: real
  y :: real
  z :: real
  prev :: "(real \<times> real \<times> real) list"
  base_size :: real
  brightness :: real
  is_shooting :: bool

text \<open>The five \<open>random()\<close> values that one call of \<open>Star.reset\<close> consumes, in order.\<close>

record reset_rand =
  u_x :: real
  u_y :: real
  u_z :: real
  u_size :: real
  u_bright :: real

definition reset_rand_ok :: "reset_rand \<Rightarrow> bool" where
  "reset_rand_ok rr =
     (unit (u_x rr) \<and> unit (u_y rr) \<and> unit (u_z rr) \<and> unit (u_size rr) \<and> unit (u_bright rr))"

definition Star_reset :: "Star \<Rightarrow> reset_rand \<Rightarrow> Star" where
  "Star_reset s rr =
     s\<lparr>Star.x := uniform (- Star.w s) (Star.w s) (u_x rr),
       Star.y := uniform (- Star.h s) (Star.h s) (u_y rr),
       z := uniform 1 (Star.w s) (u_z rr),
       prev := [],
       base_size := uniform 0.8 3.2 (u_size rr),
       brightness := uniform 0.6 1.0 (u_bright rr),
       is_shooting := False\<rparr>"

text \<open>
  \<open>Star.__init__\<close>: sets \<open>w\<close> and \<open>h\<close>, then calls \<open>reset\<close>, which assigns every other
  field (the zeros below are overwritten by it).
\<close>

definition Star_init :: "real \<Rightarrow> real \<Rightarrow> reset_rand \<Rightarrow> Star" where
  "Star_init width height rr =
     Star_reset \<lparr>Star.w = width, Star.h = height, Star.x = 0, Star.y = 0, z = 0, prev = [],
       base_size = 0, brightness = 0, is_shooting = False\<rparr> rr"

text \<open>
  \<open>Star.update\<close>, in the four steps of its body. The first two rotate the star around
  the origin and scale it inwards.
\<close>

definition Star_rotate :: "Star \<Rightarrow> real \<Rightarrow> Star" where
  "Star_rotate s rotation =
     (if rotation \<noteq> 0
      then (let cosr = cos rotation;
                sinr = sin rotation;
                xr = Star.x s * cosr - Star.y s * sinr;
                yr = Star.x s * sinr + Star.y s * cosr
            in s\<lparr>Star.x := xr, Star.y := yr\<rparr>)
      else s)"

definition Star_spiral :: "Star \<Rightarrow> real \<Rightarrow> Star" where
  "Star_spiral s spiral =
     (if spiral \<noteq> 0
      then s\<lparr>Star.x := Star.x s * (1 - spiral * 0.0006),
             Star.y := Star.y s * (1 - spiral * 0.0006)\<rparr>
      else s)"

text \<open>
  The approach: \<open>z\<close> decreases by the speed, and at \<open>z \<le> 0.9\<close> the star is respawned,
  consuming \<open>rr\<close> (for \<open>reset\<close>) and \<open>u_far\<close> (for the far range).
\<close>

definition Star_approach :: "Star \<Rightarrow> real \<Rightarrow> reset_rand \<Rightarrow> real \<Rightarrow> Star" where
  "Star_approach s speed rr u_far =
     (let s1 = s\<lparr>z := z s - speed\<rparr>
      in if z s1 \<le> 0.9
         then (Star_reset s1 rr)\<lparr>z := uniform (Star.w s1 * 0.6) (Star.w s1) u_far\<rparr>
         else s1)"

text \<open>
  The projection and the trail history. The projection divides by \<open>z\<close>: Python raises
  ZeroDivisionError at \<open>z = 0\<close>. The result is the star and the returned \<open>(sx, sy, z)\<close>.
\<close>

definition Star_project ::
  "Star \<Rightarrow> real \<Rightarrow> real \<Rightarrow> py_error + (Star \<times> (real \<times> real \<times> real))" where
  "Star_project s offset_x offset_y =
     (if z s = 0 then Inl ZeroDivisionError
      else (let sx = (Star.x s / z s) * (Star.w s / 2) + Star.w s / 2 + offset_x;
                sy = (Star.y s / z s) * (Star.h s / 2) + Star.h s / 2 + offset_y;
                s1 = s\<lparr>prev := (sx, sy, z s) # prev s\<rparr>;
                s2 = (if length (prev s1) > TRAIL_LENGTH
                      then s1\<lparr>prev := butlast (prev s1)\<rparr>
                      else s1)
            in Inr (s2, (sx, sy, z s2))))"

definition Star_update ::
  "Star \<Rightarrow> real \<Rightarrow> real \<Rightarrow> real \<Rightarrow> real \<Rightarrow> real \<Rightarrow> reset_rand \<Rightarrow> real
     \<Rightarrow> py_error + (Star \<times> (real \<times> real \<times> real))" where
  "Star_update s speed offset_x offset_y rotation spiral rr u_far =
     Star_project
       (Star_approach (Star_spiral (Star_rotate s rotation) spiral) speed rr u_far)
       offset_x offset_y"

text \<open>The inputs of one call of \<open>Star.update\<close>, and a run of calls on one star.\<close>

record update_args =
  a_speed :: real
  a_offset_x :: real
  a_offset_y :: real
  a_rotation :: real
  a_spiral :: real
  a_reset :: reset_rand
  a_far :: real

definition Star_update_args :: "Star \<Rightarrow> update_args \<Rightarrow> py_error + (Star \<times> (real \<times> real \<times> real))" where
  "Star_update_args s a =
     Star_update s (a_speed a) (a_offset_x a) (a_offset_y a) (a_rotation a) (a_spiral a)
       (a_reset a) (a_far a)"

fun Star_updates :: "Star \<Rightarrow> update_args list \<Rightarrow> py_error + Star" where
  "Star_updates s [] = Inr s"
| "Star_updates s (a # as) =
     (case Star_update_args s a of
        Inl e \<Rightarrow> Inl e
      | Inr (s', p) \<Rightarrow> Star_updates s' as)"

subsection \<open>class ShootingStar\<close>

datatype edge = EdgeTop | EdgeLeft | EdgeRight

record ShootingStar =
  w :: real
  h :: real
  x :: real
  y :: real
  vx :: real
  vy :: real
  life :: int
  age :: int
  length_s :: real
  color :: "int \<times> int \<times> int"

text \<open>
  What one construction draws: the \<open>random.choice\<close> of the edge, three \<open>random()\<close> values
  for the free coordinate and the velocity, the \<open>random.randint(80, 160)\<close> for the
  lifetime and a \<open>random()\<close> value for the length.
\<close>

record shooting_rand =
  r_edge :: edge
  u_pos :: real
  u_vx :: real
  u_vy :: real
  r_life :: int
  u_length :: real

definition shooting_rand_ok :: "shooting_rand \<Rightarrow> bool" where
  "shooting_rand_ok sr =
     (unit (u_pos sr) \<and> unit (u_vx sr) \<and> unit (u_vy sr) \<and> unit (u_length sr) \<and>
      80 \<le> r_life sr \<and> r_life sr \<le> 160)"

definition ShootingStar_init :: "real \<Rightarrow> real \<Rightarrow> shooting_rand \<Rightarrow> ShootingStar" where
  "ShootingStar_init width height sr =
     (case r_edge sr of
        EdgeTop \<Rightarrow>
          \<lparr>ShootingStar.w = width, ShootingStar.h = height,
           ShootingStar.x = uniform (- width / 4) (width * 1.25) (u_pos sr),
           ShootingStar.y = - 20,
           vx = uniform (- 6) 6 (u_vx sr),
           vy = uniform 6 12 (u_vy sr),
           life = r_life sr, age = 0, length_s = uniform 40 160 (u_length sr),
           color = (255, 220, 180)\<rparr>
      | EdgeLeft \<Rightarrow>
          \<lparr>ShootingStar.w = width, ShootingStar.h = height,
           ShootingStar.x = - 20,
           ShootingStar.y = uniform (- height / 4) (height * 1.25) (u_pos sr),
           vx = uniform 6 12 (u_vx sr),
           vy = uniform (- 3) 3 (u_vy sr),
           life = r_life sr, age = 0, length_s = uniform 40 160 (u_length sr),
           color = (255, 220, 180)\<rparr>
      | EdgeRight \<Rightarrow>
          \<lparr>ShootingStar.w = width, ShootingStar.h = height,
           ShootingStar.x = width + 20,
           ShootingStar.y = uniform (- height / 4) (height * 1.25) (u_pos sr),
           vx = uniform (- 12) (- 6) (u_vx sr),
           vy = uniform (- 3) 3 (u_vy sr),
           life = r_life sr, age = 0, length_s = uniform 40 160 (u_length sr),
           color = (255, 220, 180)\<rparr>)"

text \<open>\<open>ShootingStar.update\<close>: the moved star and the returned flag \<open>age < life\<close>.\<close>

definition ShootingStar_update :: "ShootingStar \<Rightarrow> ShootingStar \<times> bool" where
  "ShootingStar_update s =
     (let s1 = s\<lparr>ShootingStar.x := ShootingStar.x s + vx s\<rparr>;
          s2 = s1\<lparr>ShootingStar.y := ShootingStar.y s1 + vy s1\<rparr>;
          s3 = s2\<lparr>age := age s2 + 1\<rparr>
      in (s3, age s3 < life s3))"

subsection \<open>class AudioAnalyzer\<close>

text \<open>
  The fields the program reads. What the device does when the constructor opens it is an
  input of the model: the stream starts, or \<open>sd.InputStream\<close> or \<open>stream.start\<close> raises
  (inside the constructor's \<open>try\<close>), or the constructor itself raises before its \<open>try\<close>.
\<close>

record AudioAnalyzer =
  block :: nat
  sr :: nat
  latest_level :: real
  running :: bool

datatype init_outcome = StreamStarted | StreamRaises string | ConstructorRaises

definition AUDIO_BLOCK :: nat where
  "AUDIO_BLOCK = 1024"

definition AUDIO_SAMPLERATE :: nat where
  "AUDIO_SAMPLERATE = 44100"

text \<open>\<open>AudioAnalyzer.__init__\<close>: the lines printed, and the object or the escaping exception.\<close>

definition AudioAnalyzer_init :: "init_outcome \<Rightarrow> string list \<times> (py_error + AudioAnalyzer)" where
  "AudioAnalyzer_init oc =
     (let a = \<lparr>block = AUDIO_BLOCK, sr = AUDIO_SAMPLERATE, latest_level = 0, running = False\<rparr>
      in case oc of
           ConstructorRaises \<Rightarrow> ([], Inl OtherException)
         | StreamStarted \<Rightarrow> ([], Inr (a\<lparr>AudioAnalyzer.running := True\<rparr>))
         | StreamRaises e \<Rightarrow>
             ([''Audio init failed: '' @ e], Inr (a\<lparr>AudioAnalyzer.running := False\<rparr>)))"

text \<open>\<open>np.mean\<close> of a block of samples.\<close>

definition np_mean :: "real list \<Rightarrow> real" where
  "np_mean xs = sum_list xs / real (length xs)"

text \<open>
  \<open>AudioAnalyzer._callback\<close> on one block \<open>data = indata[:, 0]\<close>. The library call
  \<open>np.abs(np.fft.rfft(data))\<close> is the parameter \<open>fft_mags\<close>: the magnitudes, or \<open>None\<close>
  when the \<open>try\<close> block raises and the RMS fallback runs.
\<close>

definition AudioAnalyzer_callback ::
  "(real list \<Rightarrow> real list option) \<Rightarrow> AudioAnalyzer \<Rightarrow> real list \<Rightarrow> AudioAnalyzer" where
  "AudioAnalyzer_callback fft_mags a data =
     (let rms = sqrt (np_mean (map (\<lambda>d. d * d) data))
      in case fft_mags data of
           Some mags \<Rightarrow> (let val = np_mean mags in a\<lparr>latest_level := clamp (val * 10) 0 1.5\<rparr>)
         | None \<Rightarrow> a\<lparr>latest_level := clamp (rms * 10) 0 1.5\<rparr>)"

definition get_level :: "AudioAnalyzer \<Rightarrow> real" where
  "get_level a = latest_level a"

definition run_callbacks ::
  "(real list \<Rightarrow> real list option) \<Rightarrow> AudioAnalyzer \<Rightarrow> real list list \<Rightarrow> AudioAnalyzer" where
  "run_callbacks fft_mags a blocks = foldl (AudioAnalyzer_callback fft_mags) a blocks"

subsection \<open>main: state and set-up\<close>

type_synonym rgba = "int \<times> int \<times> int \<times> int"

text \<open>A surface's pixel buffer; \<open>Surface.fill(c)\<close> with no rectangle sets every pixel.\<close>

type_synonym pixels = "int \<times> int \<Rightarrow> rgba"

definition fill :: "pixels \<Rightarrow> rgba \<Rightarrow> pixels" where
  "fill buf c = (\<lambda>p. c)"

record main_vars =
  stars :: "Star list"
  shooting :: "ShootingStar list"
  steer_x :: real
  steer_y :: real
  rotation :: real
  spiral :: real
  speed_base :: real
  trails_enabled :: bool
  color_mode :: bool
  spiral_enabled :: bool
  audio_enabled :: bool
  audio_analyzer :: "AudioAnalyzer option"
  running :: bool
  trail_buf :: pixels
  printed :: "string list"

text \<open>
  The audio set-up of \<open>main\<close>: \<open>audio_enabled = False and AUDIO_AVAILABLE\<close>, the guarded
  construction of the analyzer, and \<open>if audio_analyzer: audio_enabled = True\<close>. An object
  of a class without \<open>__bool__\<close> or \<open>__len__\<close> is true. The result is
  \<open>(audio_enabled, audio_analyzer, printed lines)\<close>.
\<close>

definition audio_setup :: "bool \<Rightarrow> init_outcome \<Rightarrow> bool \<times> AudioAnalyzer option \<times> string list" where
  "audio_setup AUDIO_AVAILABLE oc =
     (let audio_enabled0 = (False \<and> AUDIO_AVAILABLE);
          (out, analyzer) =
            (if AUDIO_AVAILABLE
             then (case AudioAnalyzer_init oc of
                     (out, Inr a) \<Rightarrow> (out, Some a)
                   | (out, Inl e) \<Rightarrow> (out, None))
             else ([], None))
      in case analyzer of
           Some a \<Rightarrow> (True, Some a, out)
         | None \<Rightarrow> (audio_enabled0, None, out))"

definition NUM_STARS :: nat where
  "NUM_STARS = 700"

definition main_init :: "bool \<Rightarrow> init_outcome \<Rightarrow> reset_rand list \<Rightarrow> main_vars" where
  "main_init AUDIO_AVAILABLE oc rands =
     (case audio_setup AUDIO_AVAILABLE oc of
        (enabled, analyzer, out) \<Rightarrow>
          \<lparr>stars = map (Star_init WIDTH HEIGHT) (take NUM_STARS rands),
           shooting = [],
           steer_x = 0, steer_y = 0, rotation = 0, spiral = 0,
           speed_base = BASE_SPEED,
           trails_enabled = True, color_mode = True, spiral_enabled = False,
           audio_enabled = enabled, audio_analyzer = analyzer,
           running = True,
           trail_buf = (\<lambda>p. (0, 0, 0, 0)),
           printed = out\<rparr>)"

subsection \<open>main: event handling\<close>

datatype key = K_ESCAPE | K_q | K_s | K_t | K_c | K_a | K_other

datatype event = QUIT | KEYDOWN key | OtherEvent

definition handle_event :: "bool \<Rightarrow> main_vars \<Rightarrow> event \<Rightarrow> main_vars" where
  "handle_event AUDIO_AVAILABLE m ev =
     (case ev of
        QUIT \<Rightarrow> m\<lparr>main_vars.running := False\<rparr>
      | KEYDOWN k \<Rightarrow>
          (if k = K_ESCAPE \<or> k = K_q then m\<lparr>main_vars.running := False\<rparr>
           else if k = K_s then m\<lparr>spiral_enabled := \<not> spiral_enabled m\<rparr>
           else if k = K_t then
             (let m1 = m\<lparr>trails_enabled := \<not> trails_enabled m\<rparr>
              in if \<not> trails_enabled m1 then m1\<lparr>trail_buf := fill (trail_buf m1) (0, 0, 0, 0)\<rparr>
                 else m1)
           else if k = K_c then m\<lparr>color_mode := \<not> color_mode m\<rparr>
           else if k = K_a then
             (if AUDIO_AVAILABLE \<and> audio_analyzer m \<noteq> None then
                (let m1 = m\<lparr>audio_enabled := \<not> audio_enabled m\<rparr>
                 in m1\<lparr>printed := printed m1 @
                      [''Audio sync: '' @ (if audio_enabled m1 then ''True'' else ''False'')]\<rparr>)
              else m\<lparr>printed := printed m @
                      [''Audio not available (requires sounddevice + numpy).'']\<rparr>)
           else m)
      | OtherEvent \<Rightarrow> m)"

definition handle_events :: "bool \<Rightarrow> main_vars \<Rightarrow> event list \<Rightarrow> main_vars" where
  "handle_events AUDIO_AVAILABLE m evs = foldl (handle_event AUDIO_AVAILABLE) m evs"

subsection \<open>main: the frame\<close>

text \<open>
  The audio influence of a frame: \<open>(audio_level, speed_mult)\<close> after the block
  \<open>if audio_enabled and audio_analyzer\<close>.
\<close>

definition audio_influence :: "main_vars \<Rightarrow> real \<Rightarrow> real \<times> real" where
  "audio_influence m speed_mult =
     (case audio_analyzer m of
        Some a \<Rightarrow>
          (if audio_enabled m
           then (let audio_level = clamp (get_level a) 0 1.5
                 in (audio_level, speed_mult * (1 + audio_level * 0.9)))
           else (0, speed_mult))
      | None \<Rightarrow> (0, speed_mult))"

text \<open>The speed of one star in a frame; \<open>u_flicker\<close> feeds \<open>random.uniform(0.8, 1.2)\<close>.\<close>

definition star_speed :: "main_vars \<Rightarrow> real \<Rightarrow> real \<Rightarrow> real \<Rightarrow> Star \<Rightarrow> real" where
  "star_speed m speed_mult audio_level u_flicker star =
     (let s = (WIDTH - z star) / WIDTH;
          speed = (speed_base m * (1 + s * 4)) * speed_mult
      in if audio_enabled m
         then speed * (1 + audio_level * 0.8 * uniform 0.8 1.2 u_flicker)
         else speed)"

text \<open>
  The draw calls of one star after its update returned \<open>(sx, sy, sz)\<close>, or the exception
  that \<open>color_gradient\<close> raises.
\<close>

definition star_draws ::
  "main_vars \<Rightarrow> Star \<Rightarrow> real \<Rightarrow> real \<Rightarrow> real \<Rightarrow> py_error + draw_call list" where
  "star_draws m star sx sy sz =
     (if 0 \<le> sx \<and> sx < WIDTH \<and> 0 \<le> sy \<and> sy < HEIGHT then
        (let depth_norm = clamp (1 - sz / WIDTH) 0 1;
             col_result =
               (if color_mode m
                then (case color_gradient (Finite (depth_norm * brightness star)) of
                        Inl e \<Rightarrow> Inl e
                      | Inr c \<Rightarrow> Inr (rgb c))
                else (let v = py_int (lerp 60 255 (depth_norm * brightness star))
                      in Inr [v, v, v]))
         in case col_result of
              Inl e \<Rightarrow> Inl e
            | Inr col \<Rightarrow>
                (let size = max 1 (py_int (base_size star * (1 + depth_norm * 3.5)))
                 in if trails_enabled m then
                      Inr (Circle TrailSurf (col @ [200]) (py_int sx, py_int sy) size #
                           (let prevs = prev star
                            in if length prevs > 1 then
                                 (let alpha_step = py_int (180 / real (max 1 (length prevs)))
                                  in map (\<lambda>i. case prevs ! i of
                                            (px, py, pz) \<Rightarrow>
                                              (let fade = max 10 (200 - int i * alpha_step)
                                               in Line TrailSurf (col @ [fade])
                                                    (of_int (py_int px), of_int (py_int py))
                                                    (of_int (py_int sx), of_int (py_int sy))
                                                    (max 1 (size - int (i div 2)))))
                                       [1..<length prevs])
                               else []))
                    else Inr [Circle Screen col (py_int sx, py_int sy) size]))
      else Inr [])"

text \<open>The random values one star consumes in a frame.\<close>

record star_rand =
  f_flicker :: real
  f_reset :: reset_rand
  f_far :: real

text \<open>The body of \<open>for star in stars\<close>: the updated star and its draw calls.\<close>

definition star_step ::
  "main_vars \<Rightarrow> real \<Rightarrow> real \<Rightarrow> Star \<Rightarrow> star_rand \<Rightarrow> py_error + (Star \<times> draw_call list)" where
  "star_step m speed_mult audio_level star fr =
     (let speed = star_speed m speed_mult audio_level (f_flicker fr) star
      in case Star_update star speed (steer_x m) (steer_y m) (rotation m * 0.4) (spiral m * 0.6)
                (f_reset fr) (f_far fr) of
           Inl e \<Rightarrow> Inl e
         | Inr (star', (sx, sy, sz)) \<Rightarrow>
             (case star_draws m star' sx sy sz of
                Inl e \<Rightarrow> Inl e
              | Inr draws \<Rightarrow> Inr (star', draws)))"

definition SHOOTING_STAR_PROB :: real where
  "SHOOTING_STAR_PROB = 0.002"

text \<open>The spawn of a frame: \<open>u\<close> is the value of \<open>random.random()\<close>.\<close>

definition spawn_shooting :: "real \<Rightarrow> shooting_rand \<Rightarrow> ShootingStar list \<Rightarrow> ShootingStar list" where
  "spawn_shooting u rnd ss =
     (if u < SHOOTING_STAR_PROB then ss @ [ShootingStar_init WIDTH HEIGHT rnd] else ss)"

text \<open>
  The loop \<open>for s in shooting[:]\<close>: it walks a copy and removes from the list the objects
  whose update returned false (\<open>list.remove\<close> finds the object itself, the class defining
  no equality), so what stays are the updated survivors, in order. The result is the
  new list and the draw calls.
\<close>

fun shooting_loop :: "ShootingStar list \<Rightarrow> ShootingStar list \<times> draw_call list" where
  "shooting_loop [] = ([], [])"
| "shooting_loop (s # rest) =
     (case ShootingStar_update s of
        (s', alive) \<Rightarrow>
          (case shooting_loop rest of
             (kept, draws) \<Rightarrow>
               if \<not> alive then (kept, draws)
               else (let end_x = ShootingStar.x s' - vx s' * 3;
                         end_y = ShootingStar.y s' - vy s' * 3
                     in (s' # kept,
                         Line Screen (rgb (color s')) (ShootingStar.x s', ShootingStar.y s')
                           (end_x, end_y) 2 #
                         Circle Screen [255, 255, 255]
                           (py_int (ShootingStar.x s'), py_int (ShootingStar.y s')) 3 #
                         draws))))"

text \<open>The collection after \<open>n\<close> frames in which nothing is spawned.\<close>

fun shooting_frames :: "nat \<Rightarrow> ShootingStar list \<Rightarrow> ShootingStar list" where
  "shooting_frames 0 ss = ss"
| "shooting_frames (Suc n) ss = shooting_frames n (fst (shooting_loop ss))"

subsection \<open>Example runs\<close>

text \<open>
  A star created at \<open>z = 10\<close> in the centre of the field and updated three times at speed 4:
  \<open>z\<close> goes 10, 6, 2 and the third update respawns it.
\<close>

abbreviation trail_rand0 :: reset_rand where
  "trail_rand0 \<equiv> \<lparr>u_x = 1/2, u_y = 1/2, u_z = 1/111, u_size = 0, u_bright = 0\<rparr>"

abbreviation trail_rand1 :: reset_rand where
  "trail_rand1 \<equiv> \<lparr>u_x = 3/4, u_y = 1/2, u_z = 1/2, u_size = 1/2, u_bright = 1/2\<rparr>"

abbreviation trail_args :: update_args where
  "trail_args \<equiv> \<lparr>a_speed = 4, a_offset_x = 0, a_offset_y = 0, a_rotation = 0, a_spiral = 0,
     a_reset = trail_rand1, a_far = 1/2\<rparr>"

abbreviation trail_star2 :: Star where
  "trail_star2 \<equiv> \<lparr>Star.w = 1000, Star.h = 700, Star.x = 0, Star.y = 0, z = 2,
     prev = [(500, 350, 2), (500, 350, 6)],
     base_size = 4/5, brightness = 3/5, is_shooting = False\<rparr>"

abbreviation trail_point3 :: "real \<times> real \<times> real" where
  "trail_point3 \<equiv> (1625/2, 350, 800)"

abbreviation trail_star3 :: Star where
  "trail_star3 \<equiv> \<lparr>Star.w = 1000, Star.h = 700, Star.x = 500, Star.y = 0, z = 800,
     prev = [trail_point3],
     base_size = 2, brightness = 4/5, is_shooting = False\<rparr>"

text \<open>
  Two shooting stars as \<open>main\<close> spawns them: one from the left edge at height 100 moving
  right at 6 per frame with a lifetime of 80 frames, one from the top edge above \<open>x = 100\<close>.
\<close>

abbreviation streak_rand :: shooting_rand where
  "streak_rand \<equiv> \<lparr>r_edge = EdgeLeft, u_pos = 11/42, u_vx = 0, u_vy = 1/2, r_life = 80,
     u_length = 0\<rparr>"

abbreviation streak_star :: ShootingStar where
  "streak_star \<equiv> \<lparr>ShootingStar.w = 1000, ShootingStar.h = 700, ShootingStar.x = - 20,
     ShootingStar.y = 100, vx = 6, vy = 0, life = 80, age = 0, length_s = 40,
     color = (255, 220, 180)\<rparr>"

abbreviation top_rand :: shooting_rand where
  "top_rand \<equiv> \<lparr>r_edge = EdgeTop, u_pos = 7/30, u_vx = 1/2, u_vy = 0, r_life = 160,
     u_length = 1/2\<rparr>"

abbreviation top_star :: ShootingStar where
  "top_star \<equiv> \<lparr>ShootingStar.w = 1000, ShootingStar.h = 700, ShootingStar.x = 100,
     ShootingStar.y = - 20, vx = 0, vy = 6, life = 160, age = 0, length_s = 100,
     color = (255, 220, 180)\<rparr>"

text \<open>
  A star just beyond the left screen edge in one frame and, the steering offset having
  grown to 4.25 (the right arrow held for one 17 ms frame), just inside it in the next.
\<close>

abbreviation edge_rand :: reset_rand where
  "edge_rand \<equiv> \<lparr>u_x = 0.2504536, u_y = 1/2, u_z = 499/999, u_size = 0, u_bright = 0\<rparr>"

abbreviation frame_rand :: star_rand where
  "frame_rand \<equiv> \<lparr>f_flicker = 0, f_reset = trail_rand1, f_far = 1/2\<rparr>"

abbreviation edge_star1 :: Star where
  "edge_star1 \<equiv> \<lparr>Star.w = 1000, Star.h = 700, Star.x = - 499.0928, Star.y = 0, z = 497.6,
     prev = [(- 1.5, 350, 497.6)], base_size = 4/5, brightness = 3/5, is_shooting = False\<rparr>"

abbreviation edge_star2 :: Star where
  "edge_star2 \<equiv> \<lparr>Star.w = 1000, Star.h = 700, Star.x = - 499.0928, Star.y = 0,
     z = 495.19232,
     prev = [(28369 / 91028, 350, 495.19232), (- 1.5, 350, 497.6)],
     base_size = 4/5, brightness = 3/5, is_shooting = False\<rparr>"

abbreviation main_start :: main_vars where
  "main_start \<equiv> main_init False StreamStarted []"

abbreviation main_steered :: main_vars where
  "main_steered \<equiv> (main_init False StreamStarted [])\<lparr>steer_x := 4.25\<rparr>"

section \<open>Properties\<close>

subsection \<open>Truncation and interpolation\<close>

lemma py_int_mono: "r \<le> q \<Longrightarrow> py_int r \<le> py_int q"
proof -
  assume le: "r \<le> q"
  show ?thesis
  proof (cases "0 \<le> r")
    case True
    with le show ?thesis by (simp add: py_int_def floor_mono)
  next
    case False
    show ?thesis
    proof (cases "0 \<le> q")
      case True
      have up: "\<lceil>r\<rceil> \<le> 0" using False by simp
      have down: "0 \<le> \<lfloor>q\<rfloor>" using True by simp
      from up down have "\<lceil>r\<rceil> \<le> \<lfloor>q\<rfloor>" by (rule order_trans)
      then show ?thesis using False True by (simp add: py_int_def)
    next
      case qneg: False
      with False le show ?thesis by (simp add: py_int_def ceiling_mono)
    qed
  qed
qed

lemma py_int_bounds: "of_int a \<le> r \<Longrightarrow> r \<le> of_int b \<Longrightarrow> a \<le> py_int r \<and> py_int r \<le> b"
proof -
  assume lo: "of_int a \<le> r" and hi: "r \<le> of_int b"
  have "py_int (of_int a) \<le> py_int r" using lo by (rule py_int_mono)
  moreover have "py_int r \<le> py_int (of_int b)" using hi by (rule py_int_mono)
  moreover have "py_int (of_int a) = a" "py_int (of_int b) = b"
    by (simp_all add: py_int_def)
  ultimately show ?thesis by simp
qed

lemma lerp_up: "a \<le> b \<Longrightarrow> s \<le> t \<Longrightarrow> lerp a b s \<le> lerp a b t"
  by (simp add: lerp_def mult_left_mono)

lemma lerp_down: "b \<le> a \<Longrightarrow> s \<le> t \<Longrightarrow> lerp a b t \<le> lerp a b s"
  by (simp add: lerp_def mult_left_mono_neg)

lemma lerp_between_up: "a \<le> b \<Longrightarrow> 0 \<le> t \<Longrightarrow> t \<le> 1 \<Longrightarrow> a \<le> lerp a b t \<and> lerp a b t \<le> b"
  using lerp_up [of a b 0 t] lerp_up [of a b t 1] by (simp add: lerp_def)

lemma lerp_between_down: "b \<le> a \<Longrightarrow> 0 \<le> t \<Longrightarrow> t \<le> 1 \<Longrightarrow> b \<le> lerp a b t \<and> lerp a b t \<le> a"
  using lerp_down [of b a 0 t] lerp_down [of b a t 1] by (simp add: lerp_def)

subsection \<open>The color gradient\<close>

lemma py_int_lower: "r - 1 < of_int (py_int r)"
proof (cases "0 \<le> r")
  case True
  have "r - 1 < of_int \<lfloor>r\<rfloor>" by linarith
  with True show ?thesis by (simp only: py_int_def if_True)
next
  case False
  have "r \<le> of_int \<lceil>r\<rceil>" by (rule le_of_int_ceiling)
  then have "r - 1 < of_int \<lceil>r\<rceil>" by linarith
  with False show ?thesis by (simp only: py_int_def if_False)
qed

lemma py_int_upper: "of_int (py_int r) < r + 1"
proof (cases "0 \<le> r")
  case True
  have "of_int \<lfloor>r\<rfloor> \<le> r" by (rule of_int_floor_le)
  then have "of_int \<lfloor>r\<rfloor> < r + 1" by linarith
  with True show ?thesis by (simp only: py_int_def if_True)
next
  case False
  have "of_int \<lceil>r\<rceil> < r + 1" by linarith
  with False show ?thesis by (simp only: py_int_def if_False)
qed

lemma py_int_nonneg_le: "0 \<le> r \<Longrightarrow> of_int (py_int r) \<le> r"
  using of_int_floor_le [of r] by (simp only: py_int_def if_True)

lemma py_int_neg_ge: "r < 0 \<Longrightarrow> r \<le> of_int (py_int r)"
  using le_of_int_ceiling [of r] by (simp add: py_int_def)

lemma py_int_close_le:
  assumes "a \<le> b"
  shows "\<bar>real_of_int (py_int b) - real_of_int (py_int a)\<bar> \<le> (b - a) + 1"
proof -
  have mono: "real_of_int (py_int a) \<le> real_of_int (py_int b)"
    using py_int_mono [OF assms] by simp
  have up: "real_of_int (py_int b) - real_of_int (py_int a) \<le> (b - a) + 1"
  proof (cases "0 \<le> b")
    case True
    from py_int_nonneg_le [OF True] py_int_lower [of a] show ?thesis by linarith
  next
    case False
    then have "a < 0" using assms by simp
    from py_int_neg_ge [OF this] py_int_upper [of b] show ?thesis by linarith
  qed
  from mono up show ?thesis by linarith
qed

lemma slope_bound: "\<bar>s\<bar> \<le> L \<Longrightarrow> 0 \<le> d \<Longrightarrow> \<bar>s * d\<bar> \<le> L * d" for s L d :: real
proof -
  assume s: "\<bar>s\<bar> \<le> L" and d: "0 \<le> d"
  have "\<bar>s * d\<bar> = \<bar>s\<bar> * d" using d by (simp add: abs_mult)
  also have "\<dots> \<le> L * d" using s d by (rule mult_right_mono)
  finally show ?thesis .
qed

lemma ramp_lipschitz:
  fixes v0 v1 v2 v3 L p q :: real
  assumes g: "g = (\<lambda>t. if t < 0.33 then lerp v0 v1 (t / 0.33)
                       else if t < 0.66 then lerp v1 v2 ((t - 0.33) / 0.33)
                       else lerp v2 v3 ((t - 0.66) / 0.34))"
    and b1: "\<bar>v1 - v0\<bar> \<le> 0.33 * L" and b2: "\<bar>v2 - v1\<bar> \<le> 0.33 * L"
    and b3: "\<bar>v3 - v2\<bar> \<le> 0.34 * L" and pq: "p \<le> q"
  shows "\<bar>g q - g p\<bar> \<le> L * (q - p)"
proof -
  define s1 where "s1 = (v1 - v0) / 0.33"
  define s2 where "s2 = (v2 - v1) / 0.33"
  define s3 where "s3 = (v3 - v2) / 0.34"
  have s: "\<bar>s1\<bar> \<le> L" "\<bar>s2\<bar> \<le> L" "\<bar>s3\<bar> \<le> L"
    unfolding s1_def s2_def s3_def abs_divide using b1 b2 b3 by (simp_all add: field_simps)
  have h1: "t < 0.33 \<Longrightarrow> g t = v1 - s1 * (0.33 - t)" for t
    by (simp add: g lerp_def s1_def field_simps)
  have h2a: "0.33 \<le> t \<Longrightarrow> t < 0.66 \<Longrightarrow> g t = v1 + s2 * (t - 0.33)" for t
    by (simp add: g lerp_def s2_def field_simps)
  have h2b: "0.33 \<le> t \<Longrightarrow> t < 0.66 \<Longrightarrow> g t = v2 - s2 * (0.66 - t)" for t
    by (simp add: g lerp_def s2_def field_simps)
  have h3: "0.66 \<le> t \<Longrightarrow> g t = v2 + s3 * (t - 0.66)" for t
    by (simp add: g lerp_def s3_def field_simps)
  have mid: "\<bar>v2 - v1\<bar> \<le> L * 0.33" using b2 by (simp add: mult.commute)
  consider (a) "q < 0.33" | (b) "p < 0.33" "0.33 \<le> q" "q < 0.66"
    | (c) "p < 0.33" "0.66 \<le> q" | (d) "0.33 \<le> p" "q < 0.66"
    | (e) "0.33 \<le> p" "p < 0.66" "0.66 \<le> q" | (f) "0.66 \<le> p"
    by linarith
  then show ?thesis
  proof cases
    case a
    then have "p < 0.33" using pq by simp
    with a have "g q - g p = s1 * (q - p)" by (simp add: h1 algebra_simps)
    with slope_bound [OF s(1), of "q - p"] pq show ?thesis by simp
  next
    case b
    have A: "\<bar>s2 * (q - 0.33)\<bar> \<le> L * (q - 0.33)" using b by (intro slope_bound s) simp
    have B: "\<bar>s1 * (0.33 - p)\<bar> \<le> L * (0.33 - p)" using b by (intro slope_bound s) simp
    have "g q - g p = s2 * (q - 0.33) + s1 * (0.33 - p)"
      using b by (simp add: h1 h2a)
    moreover have "L * (q - 0.33) + L * (0.33 - p) = L * (q - p)" by (simp add: algebra_simps)
    ultimately show ?thesis using A B by linarith
  next
    case c
    have A: "\<bar>s3 * (q - 0.66)\<bar> \<le> L * (q - 0.66)" using c by (intro slope_bound s) simp
    have B: "\<bar>s1 * (0.33 - p)\<bar> \<le> L * (0.33 - p)" using c by (intro slope_bound s) simp
    have "g q - g p = s3 * (q - 0.66) + (v2 - v1) + s1 * (0.33 - p)"
      using c by (simp add: h1 h3)
    moreover have "L * (q - 0.66) + L * 0.33 + L * (0.33 - p) = L * (q - p)"
      by (simp add: algebra_simps)
    ultimately show ?thesis using A B mid by linarith
  next
    case d
    then have "p < 0.66" "0.33 \<le> q" using pq by simp_all
    with d have "g q - g p = s2 * (q - p)" by (simp add: h2a algebra_simps)
    with slope_bound [OF s(2), of "q - p"] pq show ?thesis by simp
  next
    case e
    have A: "\<bar>s3 * (q - 0.66)\<bar> \<le> L * (q - 0.66)" using e by (intro slope_bound s) simp
    have B: "\<bar>s2 * (0.66 - p)\<bar> \<le> L * (0.66 - p)" using e by (intro slope_bound s) simp
    have "g q - g p = s3 * (q - 0.66) + s2 * (0.66 - p)"
      using e by (simp add: h2b h3)
    moreover have "L * (q - 0.66) + L * (0.66 - p) = L * (q - p)" by (simp add: algebra_simps)
    ultimately show ?thesis using A B by linarith
  next
    case f
    then have "0.66 \<le> q" using pq by simp
    with f have "g q - g p = s3 * (q - p)" by (simp add: h3 algebra_simps)
    with slope_bound [OF s(3), of "q - p"] pq show ?thesis by simp
  qed
qed

lemma py_int_close: "\<bar>real_of_int (py_int b) - real_of_int (py_int a)\<bar> \<le> \<bar>b - a\<bar> + 1"
proof (cases "a \<le> b")
  case True
  with py_int_close_le [OF True] show ?thesis by simp
next
  case False
  then have le: "b \<le> a" by simp
  from py_int_close_le [OF le] le show ?thesis by (simp add: abs_minus_commute)
qed

lemma color_gradient_Finite:
  "color_gradient (Finite r) =
     Inr (gradient_segments (if r < 0 then 0 else if r > 1 then 1 else r))"
  by (simp add: color_gradient_def float_lt_def float_gt_def Let_def)

lemma color_gradient_NegInf: "color_gradient NegInf = Inr (gradient_segments 0)"
  by (simp add: color_gradient_def float_lt_def float_gt_def Let_def)

lemma color_gradient_PosInf: "color_gradient PosInf = Inr (gradient_segments 1)"
  by (simp add: color_gradient_def float_lt_def float_gt_def Let_def)

lemma color_gradient_NaN: "color_gradient NaN = Inl ValueError"
  by (simp add: color_gradient_def float_lt_def float_gt_def Let_def)

lemma segments_low: "gradient_segments 0 = (80, 120, 200)"
  by (simp add: gradient_segments_def blue_white_def lerp_def py_int_def)

lemma segments_high: "gradient_segments 1 = (255, 100, 40)"
  by (simp add: gradient_segments_def yellow_red_def lerp_def py_int_def)

lemma gradient_segments_range:
  assumes c01: "0 \<le> c" "c \<le> 1"
  shows "0 \<le> red (gradient_segments c) \<and> red (gradient_segments c) \<le> 255 \<and>
         0 \<le> green (gradient_segments c) \<and> green (gradient_segments c) \<le> 255 \<and>
         0 \<le> blue (gradient_segments c) \<and> blue (gradient_segments c) \<le> 255"
proof -
  note cg = gradient_segments_def
  show ?thesis
  proof (cases "c < 0.33")
    case True
    define tt where "tt = c / 0.33"
    have tt: "0 \<le> tt" "tt \<le> 1" using True c01 by (simp_all add: tt_def)
    have r: "80 \<le> lerp 80 255 tt \<and> lerp 80 255 tt \<le> 255"
      using tt by (intro lerp_between_up) simp_all
    have g: "120 \<le> lerp 120 255 tt \<and> lerp 120 255 tt \<le> 255"
      using tt by (intro lerp_between_up) simp_all
    have b: "200 \<le> lerp 200 255 tt \<and> lerp 200 255 tt \<le> 255"
      using tt by (intro lerp_between_up) simp_all
    have "0 \<le> py_int (lerp 80 255 tt) \<and> py_int (lerp 80 255 tt) \<le> 255"
      using r by (intro py_int_bounds) simp_all
    moreover have "0 \<le> py_int (lerp 120 255 tt) \<and> py_int (lerp 120 255 tt) \<le> 255"
      using g by (intro py_int_bounds) simp_all
    moreover have "0 \<le> py_int (lerp 200 255 tt) \<and> py_int (lerp 200 255 tt) \<le> 255"
      using b by (intro py_int_bounds) simp_all
    ultimately show ?thesis
      using True by (simp add: cg blue_white_def Let_def red_def green_def blue_def tt_def)
  next
    case False
    show ?thesis
    proof (cases "c < 0.66")
      case True
      define tt where "tt = (c - 0.33) / 0.33"
      have tt: "0 \<le> tt" "tt \<le> 1" using True False by (simp_all add: tt_def)
      have r: "255 \<le> lerp 255 255 tt \<and> lerp 255 255 tt \<le> 255"
        by (simp add: lerp_def)
      have g: "220 \<le> lerp 255 220 tt \<and> lerp 255 220 tt \<le> 255"
        using tt by (intro lerp_between_down) simp_all
      have b: "80 \<le> lerp 255 80 tt \<and> lerp 255 80 tt \<le> 255"
        using tt by (intro lerp_between_down) simp_all
      have "0 \<le> py_int (lerp 255 255 tt) \<and> py_int (lerp 255 255 tt) \<le> 255"
        using r by (intro py_int_bounds) simp_all
      moreover have "0 \<le> py_int (lerp 255 220 tt) \<and> py_int (lerp 255 220 tt) \<le> 255"
        using g by (intro py_int_bounds) simp_all
      moreover have "0 \<le> py_int (lerp 255 80 tt) \<and> py_int (lerp 255 80 tt) \<le> 255"
        using b by (intro py_int_bounds) simp_all
      ultimately show ?thesis
        using True False
        by (simp add: cg white_yellow_def Let_def red_def green_def blue_def tt_def)
    next
      case hi: False
      define tt where "tt = (c - 0.66) / 0.34"
      have tt: "0 \<le> tt" "tt \<le> 1" using hi c01 by (simp_all add: tt_def)
      have r: "255 \<le> lerp 255 255 tt \<and> lerp 255 255 tt \<le> 255"
        by (simp add: lerp_def)
      have g: "100 \<le> lerp 220 100 tt \<and> lerp 220 100 tt \<le> 220"
        using tt by (intro lerp_between_down) simp_all
      have b: "40 \<le> lerp 80 40 tt \<and> lerp 80 40 tt \<le> 80"
        using tt by (intro lerp_between_down) simp_all
      have "0 \<le> py_int (lerp 255 255 tt) \<and> py_int (lerp 255 255 tt) \<le> 255"
        using r by (intro py_int_bounds) simp_all
      moreover have "0 \<le> py_int (lerp 220 100 tt) \<and> py_int (lerp 220 100 tt) \<le> 255"
        using g by (intro py_int_bounds) simp_all
      moreover have "0 \<le> py_int (lerp 80 40 tt) \<and> py_int (lerp 80 40 tt) \<le> 255"
        using b by (intro py_int_bounds) simp_all
      ultimately show ?thesis
        using False hi
        by (simp add: cg yellow_red_def Let_def red_def green_def blue_def tt_def)
    qed
  qed
qed
lemma blue_white_mono:
  assumes "p \<le> q"
  shows "red (blue_white p) \<le> red (blue_white q) \<and>
         green (blue_white p) \<le> green (blue_white q) \<and>
         blue (blue_white p) \<le> blue (blue_white q)"
proof -
  have tt: "p / 0.33 \<le> q / 0.33" using assms by simp
  show ?thesis
    unfolding blue_white_def Let_def red_def green_def blue_def fst_conv snd_conv
    by (intro conjI py_int_mono lerp_up tt) simp_all
qed

lemma white_yellow_mono:
  assumes "p \<le> q"
  shows "red (white_yellow p) = red (white_yellow q) \<and>
         green (white_yellow q) \<le> green (white_yellow p) \<and>
         blue (white_yellow q) \<le> blue (white_yellow p)"
proof -
  have tt: "(p - 0.33) / 0.33 \<le> (q - 0.33) / 0.33" using assms by simp
  have "red (white_yellow p) = red (white_yellow q)"
    by (simp add: white_yellow_def red_def lerp_def)
  moreover have "green (white_yellow q) \<le> green (white_yellow p)"
    unfolding white_yellow_def Let_def green_def fst_conv snd_conv
    by (intro py_int_mono lerp_down tt) simp
  moreover have "blue (white_yellow q) \<le> blue (white_yellow p)"
    unfolding white_yellow_def Let_def blue_def fst_conv snd_conv
    by (intro py_int_mono lerp_down tt) simp
  ultimately show ?thesis by simp
qed

lemma yellow_red_mono:
  assumes "p \<le> q"
  shows "red (yellow_red p) = red (yellow_red q) \<and>
         green (yellow_red q) \<le> green (yellow_red p) \<and>
         blue (yellow_red q) \<le> blue (yellow_red p)"
proof -
  have tt: "(p - 0.66) / 0.34 \<le> (q - 0.66) / 0.34" using assms by simp
  have "red (yellow_red p) = red (yellow_red q)"
    by (simp add: yellow_red_def red_def lerp_def)
  moreover have "green (yellow_red q) \<le> green (yellow_red p)"
    unfolding yellow_red_def Let_def green_def fst_conv snd_conv
    by (intro py_int_mono lerp_down tt) simp
  moreover have "blue (yellow_red q) \<le> blue (yellow_red p)"
    unfolding yellow_red_def Let_def blue_def fst_conv snd_conv
    by (intro py_int_mono lerp_down tt) simp
  ultimately show ?thesis by simp
qed

lemma segments_piece1: "t < 0.33 \<Longrightarrow> gradient_segments t = blue_white t"
  by (simp add: gradient_segments_def)

lemma segments_piece2: "0.33 \<le> t \<Longrightarrow> t < 0.66 \<Longrightarrow> gradient_segments t = white_yellow t"
  by (simp add: gradient_segments_def)

lemma segments_piece3: "0.66 \<le> t \<Longrightarrow> gradient_segments t = yellow_red t"
  by (simp add: gradient_segments_def)

lemma boundary_033: "blue_white 0.33 = (255, 255, 255) \<and> white_yellow 0.33 = (255, 255, 255)"
  by (simp add: blue_white_def white_yellow_def lerp_def py_int_def)

lemma boundary_066: "white_yellow 0.66 = (255, 220, 80) \<and> yellow_red 0.66 = (255, 220, 80)"
  by (simp add: yellow_red_def white_yellow_def lerp_def py_int_def)

text \<open>
  Each channel is the truncation of a piecewise linear function of the clamped \<open>t\<close> whose
  slope is at most 531 on every piece, so two results differ by at most 531 times the
  distance of the arguments, plus the one unit that truncation can add.
\<close>

lemma channel_lipschitz:
  fixes v0 v1 v2 v3 p q :: real
  assumes g: "g = (\<lambda>t. if t < 0.33 then lerp v0 v1 (t / 0.33)
                       else if t < 0.66 then lerp v1 v2 ((t - 0.33) / 0.33)
                       else lerp v2 v3 ((t - 0.66) / 0.34))"
    and b1: "\<bar>v1 - v0\<bar> \<le> 0.33 * L" and b2: "\<bar>v2 - v1\<bar> \<le> 0.33 * L"
    and b3: "\<bar>v3 - v2\<bar> \<le> 0.34 * L"
    and cl: "cl = (\<lambda>r. if r < 0 then 0 else if r > 1 then 1 else r)"
  shows "\<bar>real_of_int (py_int (g (cl q))) - real_of_int (py_int (g (cl p)))\<bar> \<le> L * \<bar>q - p\<bar> + 1"
proof -
  have "0 \<le> \<bar>v1 - v0\<bar>" by simp
  from this b1 have "0 \<le> 0.33 * L" by (rule order_trans)
  then have L0: "0 \<le> L" by simp
  have step: "\<bar>real_of_int (py_int (g (cl b))) - real_of_int (py_int (g (cl a)))\<bar> \<le> L * (b - a) + 1"
    if ab: "a \<le> b" for a b :: real
  proof -
    have mono: "cl a \<le> cl b" using ab by (simp add: cl)
    have shrink: "cl b - cl a \<le> b - a" using ab by (simp add: cl)
    have "\<bar>g (cl b) - g (cl a)\<bar> \<le> L * (cl b - cl a)"
      using g b1 b2 b3 mono by (rule ramp_lipschitz)
    also have "\<dots> \<le> L * (b - a)" using shrink L0 by (rule mult_left_mono)
    finally have "\<bar>g (cl b) - g (cl a)\<bar> \<le> L * (b - a)" .
    with py_int_close [of "g (cl b)" "g (cl a)"] show ?thesis by linarith
  qed
  show ?thesis
  proof (cases "p \<le> q")
    case True
    from step [OF True] True show ?thesis by simp
  next
    case False
    then have qp: "q \<le> p" by simp
    from step [OF qp] qp show ?thesis by (simp add: abs_minus_commute)
  qed
qed

lemma red_ramp:
  "red (gradient_segments t) =
     py_int ((\<lambda>t. if t < 0.33 then lerp 80 255 (t / 0.33)
                  else if t < 0.66 then lerp 255 255 ((t - 0.33) / 0.33)
                  else lerp 255 255 ((t - 0.66) / 0.34)) t)"
  by (simp add: gradient_segments_def blue_white_def white_yellow_def yellow_red_def red_def Let_def)

lemma green_ramp:
  "green (gradient_segments t) =
     py_int ((\<lambda>t. if t < 0.33 then lerp 120 255 (t / 0.33)
                  else if t < 0.66 then lerp 255 220 ((t - 0.33) / 0.33)
                  else lerp 220 100 ((t - 0.66) / 0.34)) t)"
  by (simp add: gradient_segments_def blue_white_def white_yellow_def yellow_red_def green_def Let_def)

lemma blue_ramp:
  "blue (gradient_segments t) =
     py_int ((\<lambda>t. if t < 0.33 then lerp 200 255 (t / 0.33)
                  else if t < 0.66 then lerp 255 80 ((t - 0.33) / 0.33)
                  else lerp 80 40 ((t - 0.66) / 0.34)) t)"
  by (simp add: gradient_segments_def blue_white_def white_yellow_def yellow_red_def blue_def Let_def)

lemma gradient_lipschitz:
  fixes p q :: real
  defines "cp \<equiv> (if p < 0 then 0 else if p > 1 then 1 else p)"
    and "cq \<equiv> (if q < 0 then 0 else if q > 1 then 1 else q)"
  shows "\<bar>real_of_int (red (gradient_segments cq)) - real_of_int (red (gradient_segments cp))\<bar>
           \<le> 531 * \<bar>q - p\<bar> + 1"
    and "\<bar>real_of_int (green (gradient_segments cq)) - real_of_int (green (gradient_segments cp))\<bar>
           \<le> 531 * \<bar>q - p\<bar> + 1"
    and "\<bar>real_of_int (blue (gradient_segments cq)) - real_of_int (blue (gradient_segments cp))\<bar>
           \<le> 531 * \<bar>q - p\<bar> + 1"
proof -
  define cl :: "real \<Rightarrow> real" where "cl = (\<lambda>r. if r < 0 then 0 else if r > 1 then 1 else r)"
  have c: "cp = cl p" "cq = cl q" by (simp_all add: cp_def cq_def cl_def)
  show "\<bar>real_of_int (red (gradient_segments cq)) - real_of_int (red (gradient_segments cp))\<bar>
           \<le> 531 * \<bar>q - p\<bar> + 1"
    unfolding red_ramp c
    by (rule channel_lipschitz [OF refl _ _ _ cl_def]) simp_all
  show "\<bar>real_of_int (green (gradient_segments cq)) - real_of_int (green (gradient_segments cp))\<bar>
           \<le> 531 * \<bar>q - p\<bar> + 1"
    unfolding green_ramp c
    by (rule channel_lipschitz [OF refl _ _ _ cl_def]) simp_all
  show "\<bar>real_of_int (blue (gradient_segments cq)) - real_of_int (blue (gradient_segments cp))\<bar>
           \<le> 531 * \<bar>q - p\<bar> + 1"
    unfolding blue_ramp c
    by (rule channel_lipschitz [OF refl _ _ _ cl_def]) simp_all
qed

text \<open>
  C10 (as amended). For every input \<open>t\<close> other than NaN, however far outside \<open>[0, 1]\<close> and
  the infinities included, \<open>color_gradient\<close> returns a triple whose three components are
  integers between 0 and 255.
\<close>

theorem color_gradient_valid_rgb:
  assumes "t \<noteq> NaN"
  shows "\<exists>c. color_gradient t = Inr c \<and>
           0 \<le> red c \<and> red c \<le> 255 \<and>
           0 \<le> green c \<and> green c \<le> 255 \<and>
           0 \<le> blue c \<and> blue c \<le> 255"
proof (cases t)
  case (Finite r)
  define c where "c = (if r < 0 then 0 else if r > 1 then 1 else r)"
  have "0 \<le> c" "c \<le> 1" by (simp_all add: c_def)
  from gradient_segments_range [OF this] show ?thesis
    unfolding Finite color_gradient_Finite c_def by blast
next
  case PosInf
  from gradient_segments_range [of 1] show ?thesis
    unfolding PosInf color_gradient_PosInf by simp
next
  case NegInf
  from gradient_segments_range [of 0] show ?thesis
    unfolding NegInf color_gradient_NegInf by simp
next
  case NaN
  with assms show ?thesis by simp
qed

theorem color_gradient_valid_rgb_witness:
  "Finite (- 1000) \<noteq> NaN \<and>
   color_gradient (Finite (- 1000)) = Inr (80, 120, 200) \<and>
   (\<exists>c. color_gradient (Finite (- 1000)) = Inr c \<and>
           0 \<le> red c \<and> red c \<le> 255 \<and>
           0 \<le> green c \<and> green c \<le> 255 \<and>
           0 \<le> blue c \<and> blue c \<le> 255)"
  using color_gradient_valid_rgb [of "Finite (- 1000)"]
  by (simp add: color_gradient_Finite segments_low)

text \<open>
  The claim as stated fails at NaN: no comparison holds there, the \<open>else\<close> branch runs and
  \<open>int(nan)\<close> raises ValueError.
\<close>

theorem color_gradient_nan_counterexample: "color_gradient NaN = Inl ValueError"
  by (rule color_gradient_NaN)

text \<open>
  C6. The gradient is clamped, continuous and monotonic per channel inside each segment.
  Every \<open>t \<le> 0\<close> gives the blue endpoint (80, 120, 200) and every \<open>t \<ge> 1\<close> the red endpoint
  (255, 100, 40). On each of the three segments the function is the return expression of
  the matching branch, and at 0.33 and at 0.66 the branch on the left and the branch on
  the right return the same color. It has no jump anywhere: the results at \<open>p\<close> and \<open>q\<close>
  differ in each channel by at most \<open>531 * |q - p| + 1\<close>, the 1 being the unit that \<open>int()\<close>
  cuts off. For \<open>p \<le> q\<close> in one segment every channel moves one way (all three rise in the
  first segment; in the second and third red stays and green and blue fall).
\<close>

theorem color_gradient_clamped_continuous_monotone:
  "(ta \<le> 0 \<longrightarrow> color_gradient (Finite ta) = Inr (80, 120, 200)) \<and>
   color_gradient NegInf = Inr (80, 120, 200) \<and>
   (1 \<le> tb \<longrightarrow> color_gradient (Finite tb) = Inr (255, 100, 40)) \<and>
   color_gradient PosInf = Inr (255, 100, 40) \<and>
   (0 \<le> t1 \<and> t1 < 0.33 \<longrightarrow> color_gradient (Finite t1) = Inr (blue_white t1)) \<and>
   (0.33 \<le> t2 \<and> t2 < 0.66 \<longrightarrow> color_gradient (Finite t2) = Inr (white_yellow t2)) \<and>
   (0.66 \<le> t3 \<and> t3 \<le> 1 \<longrightarrow> color_gradient (Finite t3) = Inr (yellow_red t3)) \<and>
   blue_white 0.33 = white_yellow 0.33 \<and>
   white_yellow 0.66 = yellow_red 0.66 \<and>
   (\<exists>c d. color_gradient (Finite p) = Inr c \<and> color_gradient (Finite q) = Inr d \<and>
      \<bar>real_of_int (red d) - real_of_int (red c)\<bar> \<le> 531 * \<bar>q - p\<bar> + 1 \<and>
      \<bar>real_of_int (green d) - real_of_int (green c)\<bar> \<le> 531 * \<bar>q - p\<bar> + 1 \<and>
      \<bar>real_of_int (blue d) - real_of_int (blue c)\<bar> \<le> 531 * \<bar>q - p\<bar> + 1) \<and>
   (0 \<le> p1 \<and> p1 \<le> q1 \<and> q1 < 0.33 \<longrightarrow>
      (\<exists>c d. color_gradient (Finite p1) = Inr c \<and> color_gradient (Finite q1) = Inr d \<and>
         red c \<le> red d \<and> green c \<le> green d \<and> blue c \<le> blue d)) \<and>
   (0.33 \<le> p2 \<and> p2 \<le> q2 \<and> q2 < 0.66 \<longrightarrow>
      (\<exists>c d. color_gradient (Finite p2) = Inr c \<and> color_gradient (Finite q2) = Inr d \<and>
         red c = red d \<and> green d \<le> green c \<and> blue d \<le> blue c)) \<and>
   (0.66 \<le> p3 \<and> p3 \<le> q3 \<and> q3 \<le> 1 \<longrightarrow>
      (\<exists>c d. color_gradient (Finite p3) = Inr c \<and> color_gradient (Finite q3) = Inr d \<and>
         red c = red d \<and> green d \<le> green c \<and> blue d \<le> blue c))"
proof -
  have low: "ta \<le> 0 \<Longrightarrow> color_gradient (Finite ta) = Inr (80, 120, 200)"
    by (cases "ta < 0") (simp_all add: color_gradient_Finite segments_low)
  have high: "1 \<le> tb \<Longrightarrow> color_gradient (Finite tb) = Inr (255, 100, 40)"
    by (cases "tb > 1") (simp_all add: color_gradient_Finite segments_high)
  have s1: "0 \<le> t \<Longrightarrow> t < 0.33 \<Longrightarrow> color_gradient (Finite t) = Inr (blue_white t)" for t
    by (simp add: color_gradient_Finite segments_piece1)
  have s2: "0.33 \<le> t \<Longrightarrow> t < 0.66 \<Longrightarrow> color_gradient (Finite t) = Inr (white_yellow t)" for t
    by (simp add: color_gradient_Finite segments_piece2)
  have s3: "0.66 \<le> t \<Longrightarrow> t \<le> 1 \<Longrightarrow> color_gradient (Finite t) = Inr (yellow_red t)" for t
    by (simp add: color_gradient_Finite segments_piece3)
  have lip: "(\<exists>c d. color_gradient (Finite p) = Inr c \<and> color_gradient (Finite q) = Inr d \<and>
        \<bar>real_of_int (red d) - real_of_int (red c)\<bar> \<le> 531 * \<bar>q - p\<bar> + 1 \<and>
        \<bar>real_of_int (green d) - real_of_int (green c)\<bar> \<le> 531 * \<bar>q - p\<bar> + 1 \<and>
        \<bar>real_of_int (blue d) - real_of_int (blue c)\<bar> \<le> 531 * \<bar>q - p\<bar> + 1)"
    unfolding color_gradient_Finite using gradient_lipschitz [of q p] by blast
  have m1: "(0 \<le> p1 \<and> p1 \<le> q1 \<and> q1 < 0.33 \<longrightarrow>
        (\<exists>c d. color_gradient (Finite p1) = Inr c \<and> color_gradient (Finite q1) = Inr d \<and>
           red c \<le> red d \<and> green c \<le> green d \<and> blue c \<le> blue d))"
  proof
    assume a: "0 \<le> p1 \<and> p1 \<le> q1 \<and> q1 < 0.33"
    then have "color_gradient (Finite p1) = Inr (blue_white p1)"
      "color_gradient (Finite q1) = Inr (blue_white q1)"
      by (simp_all add: s1)
    with blue_white_mono [of p1 q1] a
    show "\<exists>c d. color_gradient (Finite p1) = Inr c \<and> color_gradient (Finite q1) = Inr d \<and>
         red c \<le> red d \<and> green c \<le> green d \<and> blue c \<le> blue d"
      by simp
  qed
  have m2: "(0.33 \<le> p2 \<and> p2 \<le> q2 \<and> q2 < 0.66 \<longrightarrow>
        (\<exists>c d. color_gradient (Finite p2) = Inr c \<and> color_gradient (Finite q2) = Inr d \<and>
           red c = red d \<and> green d \<le> green c \<and> blue d \<le> blue c))"
  proof
    assume a: "0.33 \<le> p2 \<and> p2 \<le> q2 \<and> q2 < 0.66"
    then have "color_gradient (Finite p2) = Inr (white_yellow p2)"
      "color_gradient (Finite q2) = Inr (white_yellow q2)"
      by (simp_all add: s2)
    with white_yellow_mono [of p2 q2] a
    show "\<exists>c d. color_gradient (Finite p2) = Inr c \<and> color_gradient (Finite q2) = Inr d \<and>
         red c = red d \<and> green d \<le> green c \<and> blue d \<le> blue c"
      by simp
  qed
  have m3: "(0.66 \<le> p3 \<and> p3 \<le> q3 \<and> q3 \<le> 1 \<longrightarrow>
        (\<exists>c d. color_gradient (Finite p3) = Inr c \<and> color_gradient (Finite q3) = Inr d \<and>
           red c = red d \<and> green d \<le> green c \<and> blue d \<le> blue c))"
  proof
    assume a: "0.66 \<le> p3 \<and> p3 \<le> q3 \<and> q3 \<le> 1"
    then have "color_gradient (Finite p3) = Inr (yellow_red p3)"
      "color_gradient (Finite q3) = Inr (yellow_red q3)"
      by (simp_all add: s3)
    with yellow_red_mono [of p3 q3] a
    show "\<exists>c d. color_gradient (Finite p3) = Inr c \<and> color_gradient (Finite q3) = Inr d \<and>
         red c = red d \<and> green d \<le> green c \<and> blue d \<le> blue c"
      by simp
  qed
  have ends: "color_gradient NegInf = Inr (80, 120, 200)" "color_gradient PosInf = Inr (255, 100, 40)"
    by (simp_all add: color_gradient_NegInf color_gradient_PosInf segments_low segments_high)
  have b: "blue_white 0.33 = white_yellow 0.33" "white_yellow 0.66 = yellow_red 0.66"
    using boundary_033 boundary_066 by simp_all
  from low high s1 [of t1] s2 [of t2] s3 [of t3] ends b lip m1 m2 m3 show ?thesis
    by blast
qed

theorem color_gradient_clamped_continuous_monotone_witness:
  "(- 5 :: real) \<le> 0 \<and> color_gradient (Finite (- 5)) = Inr (80, 120, 200) \<and>
   (1 :: real) \<le> 7 \<and> color_gradient (Finite 7) = Inr (255, 100, 40) \<and>
   (0 :: real) \<le> 0.1 \<and> (0.1 :: real) < 0.33 \<and>
   color_gradient (Finite 0.1) = Inr (blue_white 0.1) \<and>
   (0.33 :: real) \<le> 0.33 \<and> (0.33 :: real) < 0.66 \<and>
   color_gradient (Finite 0.33) = Inr (white_yellow 0.33) \<and>
   (0.66 :: real) \<le> 0.66 \<and> (0.66 :: real) \<le> 1 \<and>
   color_gradient (Finite 0.66) = Inr (yellow_red 0.66) \<and>
   (\<exists>c d. color_gradient (Finite 0.32) = Inr c \<and> color_gradient (Finite 0.34) = Inr d \<and>
      \<bar>real_of_int (red d) - real_of_int (red c)\<bar> \<le> 531 * \<bar>0.34 - 0.32\<bar> + 1 \<and>
      \<bar>real_of_int (green d) - real_of_int (green c)\<bar> \<le> 531 * \<bar>0.34 - 0.32\<bar> + 1 \<and>
      \<bar>real_of_int (blue d) - real_of_int (blue c)\<bar> \<le> 531 * \<bar>0.34 - 0.32\<bar> + 1) \<and>
   (0 :: real) \<le> 0.1 \<and> (0.1 :: real) \<le> 0.2 \<and> (0.2 :: real) < 0.33 \<and>
   (\<exists>c d. color_gradient (Finite 0.1) = Inr c \<and> color_gradient (Finite 0.2) = Inr d \<and>
         red c \<le> red d \<and> green c \<le> green d \<and> blue c \<le> blue d) \<and>
   (0.33 :: real) \<le> 0.4 \<and> (0.4 :: real) \<le> 0.5 \<and> (0.5 :: real) < 0.66 \<and>
   (\<exists>c d. color_gradient (Finite 0.4) = Inr c \<and> color_gradient (Finite 0.5) = Inr d \<and>
         red c = red d \<and> green d \<le> green c \<and> blue d \<le> blue c) \<and>
   (0.66 :: real) \<le> 0.7 \<and> (0.7 :: real) \<le> 0.9 \<and> (0.9 :: real) \<le> 1 \<and>
   (\<exists>c d. color_gradient (Finite 0.7) = Inr c \<and> color_gradient (Finite 0.9) = Inr d \<and>
         red c = red d \<and> green d \<le> green c \<and> blue d \<le> blue c)"
proof -
  note inst = color_gradient_clamped_continuous_monotone
    [where ta = "- 5" and tb = 7 and ?t1.0 = "0.1" and ?t2.0 = "0.33" and ?t3.0 = "0.66"
       and p = "0.32" and q = "0.34" and ?p1.0 = "0.1" and ?q1.0 = "0.2"
       and ?p2.0 = "0.4" and ?q2.0 = "0.5" and ?p3.0 = "0.7" and ?q3.0 = "0.9"]
  have n: "(- 5 :: real) \<le> 0" "(1 :: real) \<le> 7"
    "(0 :: real) \<le> 0.1 \<and> (0.1 :: real) < 0.33"
    "(0.33 :: real) \<le> 0.33 \<and> (0.33 :: real) < 0.66"
    "(0.66 :: real) \<le> 0.66 \<and> (0.66 :: real) \<le> 1"
    "(0 :: real) \<le> 0.1 \<and> (0.1 :: real) \<le> 0.2 \<and> (0.2 :: real) < 0.33"
    "(0.33 :: real) \<le> 0.4 \<and> (0.4 :: real) \<le> 0.5 \<and> (0.5 :: real) < 0.66"
    "(0.66 :: real) \<le> 0.7 \<and> (0.7 :: real) \<le> 0.9 \<and> (0.9 :: real) \<le> 1"
    by simp_all
  from inst n show ?thesis by blast
qed

subsection \<open>Star.update\<close>

lemma uniform_range: "a \<le> b \<Longrightarrow> unit u \<Longrightarrow> a \<le> uniform a b u \<and> uniform a b u \<le> b"
proof -
  assume ab: "a \<le> b" and u: "unit u"
  have "0 \<le> (b - a) * u" using ab u by (simp add: unit_def)
  moreover have "(b - a) * u \<le> (b - a) * 1"
    using ab u by (intro mult_left_mono) (simp_all add: unit_def)
  ultimately show ?thesis by (simp add: uniform_def)
qed

lemma Star_rotate_fields [simp]:
  "Star.w (Star_rotate s r) = Star.w s" "Star.h (Star_rotate s r) = Star.h s"
  "z (Star_rotate s r) = z s" "prev (Star_rotate s r) = prev s"
  by (simp_all add: Star_rotate_def Let_def)

lemma Star_spiral_fields [simp]:
  "Star.w (Star_spiral s r) = Star.w s" "Star.h (Star_spiral s r) = Star.h s"
  "z (Star_spiral s r) = z s" "prev (Star_spiral s r) = prev s"
  by (simp_all add: Star_spiral_def)

lemma Star_approach_keep:
  "0.9 < z s - speed \<Longrightarrow> Star_approach s speed rr u_far = s\<lparr>z := z s - speed\<rparr>"
  by (simp add: Star_approach_def Let_def)

lemma Star_approach_respawn:
  "z s - speed \<le> 0.9 \<Longrightarrow>
   Star_approach s speed rr u_far =
     (Star_reset (s\<lparr>z := z s - speed\<rparr>) rr)\<lparr>z := uniform (Star.w s * 0.6) (Star.w s) u_far\<rparr>"
  by (simp add: Star_approach_def Let_def)

lemma Star_approach_w [simp]: "Star.w (Star_approach s speed rr u_far) = Star.w s"
  by (simp add: Star_approach_def Let_def Star_reset_def)

lemma Star_approach_h [simp]: "Star.h (Star_approach s speed rr u_far) = Star.h s"
  by (simp add: Star_approach_def Let_def Star_reset_def)

lemma Star_project_Inr:
  "z s \<noteq> 0 \<Longrightarrow> \<exists>s' p. Star_project s ox oy = Inr (s', p) \<and>
      z s' = z s \<and> Star.w s' = Star.w s \<and> Star.h s' = Star.h s \<and>
      Star.x s' = Star.x s \<and> Star.y s' = Star.y s"
  by (simp add: Star_project_def Let_def)

text \<open>
  C1. After \<open>Star.update\<close> on a star of the program (its \<open>w\<close> is \<open>WIDTH\<close>) the call returns
  and the depth \<open>z\<close> is strictly greater than 0.9, whatever the speed: when \<open>z - speed\<close> is
  at most 0.9 the star is respawned in place, \<open>x\<close> and \<open>y\<close> are the fresh draws of \<open>reset\<close> and
  \<open>z\<close> is the draw from the far range \<open>[0.6 * WIDTH, WIDTH]\<close>; otherwise \<open>z\<close> is \<open>z - speed\<close>.
\<close>

theorem Star_update_respawn_invariant:
  assumes wd: "Star.w s = WIDTH" and far: "unit u_far"
  shows "\<exists>s' p. Star_update s speed ox oy rot spi rr u_far = Inr (s', p) \<and>
           0.9 < z s' \<and> Star.w s' = WIDTH \<and>
           (z s - speed \<le> 0.9 \<longrightarrow>
              Star.x s' = uniform (- WIDTH) WIDTH (u_x rr) \<and>
              Star.y s' = uniform (- Star.h s) (Star.h s) (u_y rr) \<and>
              z s' = uniform (WIDTH * 0.6) WIDTH u_far \<and>
              0.6 * WIDTH \<le> z s' \<and> z s' \<le> WIDTH) \<and>
           (0.9 < z s - speed \<longrightarrow> z s' = z s - speed)"
proof -
  define s2 where "s2 = Star_spiral (Star_rotate s rot) spi"
  define s4 where "s4 = Star_approach s2 speed rr u_far"
  have s2: "Star.w s2 = WIDTH" "Star.h s2 = Star.h s" "z s2 = z s"
    using wd by (simp_all add: s2_def)
  have upd: "Star_update s speed ox oy rot spi rr u_far = Star_project s4 ox oy"
    by (simp add: Star_update_def s4_def s2_def)
  have rng: "WIDTH * 0.6 \<le> uniform (WIDTH * 0.6) WIDTH u_far \<and>
             uniform (WIDTH * 0.6) WIDTH u_far \<le> WIDTH"
    using far by (intro uniform_range) (simp_all add: WIDTH_def)
  have s4w: "Star.w s4 = WIDTH" using s2 by (simp add: s4_def)
  show ?thesis
  proof (cases "z s - speed \<le> 0.9")
    case True
    have s4: "s4 = (Star_reset (s2\<lparr>z := z s2 - speed\<rparr>) rr)
                     \<lparr>z := uniform (Star.w s2 * 0.6) (Star.w s2) u_far\<rparr>"
      unfolding s4_def using True s2 by (intro Star_approach_respawn) simp
    have z4: "z s4 = uniform (WIDTH * 0.6) WIDTH u_far" by (simp add: s4 s2)
    have x4: "Star.x s4 = uniform (- WIDTH) WIDTH (u_x rr)"
      by (simp add: s4 s2 Star_reset_def)
    have y4: "Star.y s4 = uniform (- Star.h s) (Star.h s) (u_y rr)"
      by (simp add: s4 s2 Star_reset_def)
    have big: "0.9 < z s4" using rng z4 by (simp add: WIDTH_def)
    then have "z s4 \<noteq> 0" by simp
    from Star_project_Inr [OF this, of ox oy] obtain s' p where
      sp: "Star_project s4 ox oy = Inr (s', p)" "z s' = z s4" "Star.w s' = Star.w s4"
          "Star.x s' = Star.x s4" "Star.y s' = Star.y s4"
      by blast
    have "0.9 < z s'" using sp big by simp
    moreover have "Star.w s' = WIDTH" using sp s4w by simp
    moreover have "Star.x s' = uniform (- WIDTH) WIDTH (u_x rr)" using sp x4 by simp
    moreover have "Star.y s' = uniform (- Star.h s) (Star.h s) (u_y rr)" using sp y4 by simp
    moreover have "z s' = uniform (WIDTH * 0.6) WIDTH u_far" using sp z4 by simp
    moreover have "0.6 * WIDTH \<le> z s'" "z s' \<le> WIDTH" using sp z4 rng by simp_all
    ultimately show ?thesis using upd sp(1) True
      by (intro exI [of _ s'] exI [of _ p]) simp
  next
    case False
    then have keep: "0.9 < z s2 - speed" using s2 by simp
    have s4: "s4 = s2\<lparr>z := z s2 - speed\<rparr>"
      unfolding s4_def using keep by (rule Star_approach_keep)
    have z4: "z s4 = z s - speed" by (simp add: s4 s2)
    then have "z s4 \<noteq> 0" using False by simp
    from Star_project_Inr [OF this, of ox oy] obtain s' p where
      sp: "Star_project s4 ox oy = Inr (s', p)" "z s' = z s4" "Star.w s' = Star.w s4"
      by blast
    have "0.9 < z s'" using sp z4 False by simp
    moreover have "Star.w s' = WIDTH" using sp s4w by simp
    moreover have "z s' = z s - speed" using sp z4 by simp
    ultimately show ?thesis using upd sp(1) False
      by (intro exI [of _ s'] exI [of _ p]) simp
  qed
qed

theorem Star_update_respawn_invariant_witness:
  "Star.w (Star_init WIDTH HEIGHT \<lparr>u_x = 0.5, u_y = 0.5, u_z = 0, u_size = 0, u_bright = 0\<rparr>) = WIDTH \<and>
   unit 0.5 \<and>
   z (Star_init WIDTH HEIGHT \<lparr>u_x = 0.5, u_y = 0.5, u_z = 0, u_size = 0, u_bright = 0\<rparr>) - 0.8 \<le> 0.9 \<and>
   (\<exists>s' p. Star_update (Star_init WIDTH HEIGHT \<lparr>u_x = 0.5, u_y = 0.5, u_z = 0, u_size = 0, u_bright = 0\<rparr>)
               0.8 0 0 0 0 \<lparr>u_x = 0.75, u_y = 0.5, u_z = 0.5, u_size = 0.5, u_bright = 0.5\<rparr> 0.5 = Inr (s', p) \<and>
            0.9 < z s' \<and> Star.x s' = 500 \<and> Star.y s' = 0 \<and> z s' = 800)"
proof -
  let ?s0 = "Star_init WIDTH HEIGHT \<lparr>u_x = 0.5, u_y = 0.5, u_z = 0, u_size = 0, u_bright = 0\<rparr>"
  let ?rr = "\<lparr>u_x = 0.75, u_y = 0.5, u_z = 0.5, u_size = 0.5, u_bright = 0.5\<rparr>"
  have a: "Star.w ?s0 = WIDTH" by (simp add: Star_init_def Star_reset_def)
  have b: "unit 0.5" by (simp add: unit_def)
  have c: "z ?s0 - 0.8 \<le> 0.9" by (simp add: Star_init_def Star_reset_def uniform_def)
  have h: "Star.h ?s0 = 700" by (simp add: Star_init_def Star_reset_def HEIGHT_def)
  from Star_update_respawn_invariant [OF a b, of "0.8" 0 0 0 0 ?rr] c
  obtain s' p where
    r: "Star_update ?s0 0.8 0 0 0 0 ?rr 0.5 = Inr (s', p)" "0.9 < z s'"
       "Star.x s' = uniform (- WIDTH) WIDTH (u_x ?rr)"
       "Star.y s' = uniform (- Star.h ?s0) (Star.h ?s0) (u_y ?rr)"
       "z s' = uniform (WIDTH * 0.6) WIDTH 0.5"
    by blast
  have "Star.x s' = 500" using r(3) by (simp add: uniform_def WIDTH_def)
  moreover have "Star.y s' = 0" using r(4) h by (simp add: uniform_def)
  moreover have "z s' = 800" using r(5) by (simp add: uniform_def WIDTH_def)
  ultimately have "\<exists>s' p. Star_update ?s0 0.8 0 0 0 0 ?rr 0.5 = Inr (s', p) \<and>
            0.9 < z s' \<and> Star.x s' = 500 \<and> Star.y s' = 0 \<and> z s' = 800"
    using r(1,2) by blast
  with a b c show ?thesis by blast
qed

subsection \<open>The trail history\<close>

lemma Star_project_prev:
  assumes "Star_project s ox oy = Inr (s', p)" and "length (prev s) \<le> TRAIL_LENGTH"
  shows "length (prev s') \<le> TRAIL_LENGTH \<and>
         prev s' = (if length (prev s) < TRAIL_LENGTH then p # prev s else p # butlast (prev s))"
proof (cases "z s = 0")
  case True
  with assms(1) show ?thesis by (simp add: Star_project_def)
next
  case False
  show ?thesis
  proof (cases "length (prev s) < TRAIL_LENGTH")
    case True
    with False assms(1) show ?thesis
      by (auto simp add: Star_project_def Let_def)
  next
    case full: False
    then have "prev s \<noteq> []" by (auto simp add: TRAIL_LENGTH_def)
    with False full assms show ?thesis
      by (auto simp add: Star_project_def Let_def TRAIL_LENGTH_def)
  qed
qed

lemma Star_approach_prev:
  "prev (Star_approach s speed rr u_far) = (if z s - speed \<le> 0.9 then [] else prev s)"
  by (simp add: Star_approach_def Let_def Star_reset_def)

lemma Star_update_prev:
  assumes "Star_update s speed ox oy rot spi rr u_far = Inr (s', p)"
    and "length (prev s) \<le> TRAIL_LENGTH"
  shows "length (prev s') \<le> TRAIL_LENGTH \<and>
         (if z s - speed \<le> 0.9 then prev s' = [p]
          else if length (prev s) < TRAIL_LENGTH then prev s' = p # prev s
          else prev s' = p # butlast (prev s))"
proof -
  define s4 where "s4 = Star_approach (Star_spiral (Star_rotate s rot) spi) speed rr u_far"
  have p4: "prev s4 = (if z s - speed \<le> 0.9 then [] else prev s)"
    by (simp add: s4_def Star_approach_prev)
  then have len: "length (prev s4) \<le> TRAIL_LENGTH" using assms(2) by simp
  have "Star_project s4 ox oy = Inr (s', p)"
    using assms(1) by (simp add: Star_update_def s4_def)
  note pp = Star_project_prev [OF this len]
  have r: "length (prev s') \<le> TRAIL_LENGTH"
    "prev s' = (if length (prev s4) < TRAIL_LENGTH then p # prev s4 else p # butlast (prev s4))"
    using pp by blast+
  show ?thesis
  proof (cases "z s - speed \<le> 0.9")
    case True
    then have "prev s4 = []" using p4 by simp
    with r True show ?thesis by (simp add: TRAIL_LENGTH_def)
  next
    case False
    then have "prev s4 = prev s" using p4 by simp
    with r False show ?thesis by simp
  qed
qed

lemma Star_init_prev: "prev (Star_init wd ht rr) = []"
  by (simp add: Star_init_def Star_reset_def)

lemma Star_updates_prev:
  "Star_updates s as = Inr s' \<Longrightarrow> length (prev s) \<le> TRAIL_LENGTH \<Longrightarrow>
   length (prev s') \<le> TRAIL_LENGTH"
proof (induction as arbitrary: s)
  case Nil
  then show ?case by simp
next
  case (Cons a as)
  from Cons.prems(1) obtain s1 p where
    step: "Star_update_args s a = Inr (s1, p)" and rest: "Star_updates s1 as = Inr s'"
    by (auto split: sum.splits)
  from step Cons.prems(2) have "length (prev s1) \<le> TRAIL_LENGTH"
    using Star_update_prev by (simp add: Star_update_args_def)
  with rest show ?case by (rule Cons.IH)
qed

text \<open>
  C5 (as amended). The trail history never exceeds \<open>TRAIL_LENGTH\<close>: it holds after any run
  of updates on a new star, and every update of a star whose history is within the bound
  keeps it there with the newly projected point at the front. An update that does not
  respawn the star drops at most the single oldest entry (exactly when the history was
  full); an update that respawns it leaves only the new point, \<open>reset\<close> having cleared the
  history.
\<close>

theorem trail_history_bounded:
  "(Star_updates (Star_init wd ht r0) as = Inr s0 \<longrightarrow> length (prev s0) \<le> TRAIL_LENGTH) \<and>
   (length (prev s) \<le> TRAIL_LENGTH \<and>
    Star_update s speed ox oy rot spi rr u_far = Inr (s', p) \<longrightarrow>
      length (prev s') \<le> TRAIL_LENGTH \<and>
      (if z s - speed \<le> 0.9 then prev s' = [p]
       else if length (prev s) < TRAIL_LENGTH then prev s' = p # prev s
       else prev s' = p # butlast (prev s)))"
proof (intro conjI impI)
  assume "Star_updates (Star_init wd ht r0) as = Inr s0"
  then show "length (prev s0) \<le> TRAIL_LENGTH"
    by (rule Star_updates_prev) (simp add: Star_init_prev)
next
  assume a: "length (prev s) \<le> TRAIL_LENGTH \<and>
    Star_update s speed ox oy rot spi rr u_far = Inr (s', p)"
  from Star_update_prev [of s speed ox oy rot spi rr u_far s' p] a
  show "length (prev s') \<le> TRAIL_LENGTH"
    and "if z s - speed \<le> 0.9 then prev s' = [p]
       else if length (prev s) < TRAIL_LENGTH then prev s' = p # prev s
       else prev s' = p # butlast (prev s)"
    by simp_all
qed

lemma trail_run: "Star_updates (Star_init WIDTH HEIGHT trail_rand0) [trail_args, trail_args] = Inr trail_star2"
  by (simp add: Star_init_def Star_reset_def Star_update_args_def Star_update_def
      Star_rotate_def Star_spiral_def Star_approach_def Star_project_def Let_def
      uniform_def WIDTH_def HEIGHT_def TRAIL_LENGTH_def)

lemma trail_respawn: "Star_update_args trail_star2 trail_args = Inr (trail_star3, trail_point3)"
  by (simp add: Star_reset_def Star_update_args_def Star_update_def
      Star_rotate_def Star_spiral_def Star_approach_def Star_project_def Let_def
      uniform_def TRAIL_LENGTH_def)

theorem trail_history_bounded_witness:
  "Star_updates (Star_init WIDTH HEIGHT trail_rand0) [trail_args, trail_args] = Inr trail_star2 \<and>
   length (prev trail_star2) \<le> TRAIL_LENGTH \<and>
   Star_update trail_star2 4 0 0 0 0 trail_rand1 (1/2) = Inr (trail_star3, trail_point3) \<and>
   length (prev trail_star3) \<le> TRAIL_LENGTH \<and>
   prev trail_star3 = [trail_point3]"
  using trail_history_bounded [of WIDTH HEIGHT trail_rand0 "[trail_args, trail_args]" trail_star2
      trail_star2 4 0 0 0 0 trail_rand1 "1/2" trail_star3 trail_point3]
    trail_run trail_respawn
  by (simp add: Star_update_args_def TRAIL_LENGTH_def)

text \<open>
  The claim as stated fails on a respawn: the star reached after two updates holds two
  trail entries, and the third update, which respawns it, drops both.
\<close>

theorem trail_respawn_counterexample:
  "Star_updates (Star_init WIDTH HEIGHT trail_rand0) [trail_args, trail_args] = Inr trail_star2 \<and>
   Star_update_args trail_star2 trail_args = Inr (trail_star3, trail_point3) \<and>
   prev trail_star2 = [(500, 350, 2), (500, 350, 6)] \<and>
   prev trail_star3 = [trail_point3] \<and>
   prev trail_star3 \<noteq> trail_point3 # prev trail_star2 \<and>
   prev trail_star3 \<noteq> trail_point3 # butlast (prev trail_star2)"
  using trail_run trail_respawn by simp

subsection \<open>Shooting stars\<close>

lemma ShootingStar_update_eq:
  "ShootingStar_update s =
     (s\<lparr>ShootingStar.x := ShootingStar.x s + vx s, ShootingStar.y := ShootingStar.y s + vy s,
        age := age s + 1\<rparr>, age s + 1 < life s)"
  by (simp add: ShootingStar_update_def Let_def)

lemma shooting_loop_kept:
  "fst (shooting_loop ss) =
     map (\<lambda>s. fst (ShootingStar_update s)) (filter (\<lambda>s. age s + 1 < life s) ss)"
proof (induction ss)
  case Nil
  show ?case by simp
next
  case (Cons a ss)
  obtain kept draws where rest: "shooting_loop ss = (kept, draws)"
    by (cases "shooting_loop ss")
  with Cons.IH have kept:
    "kept = map (\<lambda>s. fst (ShootingStar_update s)) (filter (\<lambda>s. age s + 1 < life s) ss)"
    by simp
  have upd: "ShootingStar_update a = (fst (ShootingStar_update a), age a + 1 < life a)"
    by (simp add: ShootingStar_update_eq)
  show ?case
  proof (cases "age a + 1 < life a")
    case True
    have "fst (shooting_loop (a # ss)) = fst (ShootingStar_update a) # kept"
      using True by (subst shooting_loop.simps, subst upd) (simp add: rest Let_def)
    with True kept show ?thesis by simp
  next
    case False
    have "fst (shooting_loop (a # ss)) = kept"
      using False by (subst shooting_loop.simps, subst upd) (simp add: rest)
    with False kept show ?thesis by simp
  qed
qed

lemma shooting_frames_Nil: "shooting_frames n [] = []"
  by (induction n) simp_all

lemma shooting_frames_single:
  "age s < life s \<Longrightarrow>
   shooting_frames n [s] =
     (if age s + int n < life s
      then [s\<lparr>ShootingStar.x := ShootingStar.x s + real n * vx s,
              ShootingStar.y := ShootingStar.y s + real n * vy s,
              age := age s + int n\<rparr>]
      else [])"
proof (induction n arbitrary: s)
  case 0
  then show ?case by simp
next
  case (Suc n)
  show ?case
  proof (cases "age s + 1 < life s")
    case True
    define s1 where "s1 = fst (ShootingStar_update s)"
    have s1: "s1 = s\<lparr>ShootingStar.x := ShootingStar.x s + vx s,
                     ShootingStar.y := ShootingStar.y s + vy s, age := age s + 1\<rparr>"
      by (simp add: s1_def ShootingStar_update_eq)
    have kept: "fst (shooting_loop [s]) = [s1]"
      using True shooting_loop_kept [of "[s]"] by (simp add: s1_def del: shooting_loop.simps)
    have "age s1 < life s1" using True by (simp add: s1)
    from Suc.IH [OF this] kept
    have "shooting_frames (Suc n) [s] =
        (if age s1 + int n < life s1
         then [s1\<lparr>ShootingStar.x := ShootingStar.x s1 + real n * vx s1,
                  ShootingStar.y := ShootingStar.y s1 + real n * vy s1,
                  age := age s1 + int n\<rparr>]
         else [])"
      by simp
    then show ?thesis by (simp add: s1 algebra_simps)
  next
    case False
    then have "fst (shooting_loop [s]) = []"
      using shooting_loop_kept [of "[s]"] by (simp del: shooting_loop.simps)
    with False show ?thesis by (simp add: shooting_frames_Nil)
  qed
qed

text \<open>
  C3. \<open>ShootingStar.update\<close> increments \<open>age\<close> by one and reports \<open>age < life\<close>; the frame's
  loop keeps exactly the stars whose update reported true. So a star spawned with age 0
  and a positive lifetime is in the collection, at age \<open>n\<close>, after every frame \<open>n\<close> before
  its lifetime and is gone from frame \<open>n = life\<close> on: it is removed in the frame in which
  its age first equals its lifetime.
\<close>

theorem shooting_star_removed_at_lifetime:
  "age (fst (ShootingStar_update t)) = age t + 1 \<and>
   snd (ShootingStar_update t) = (age t + 1 < life t) \<and>
   fst (shooting_loop ss) =
     map (\<lambda>s. fst (ShootingStar_update s)) (filter (\<lambda>s. age s + 1 < life s) ss) \<and>
   (age s = 0 \<and> 0 < life s \<longrightarrow>
      shooting_frames n [s] =
        (if int n < life s
         then [s\<lparr>ShootingStar.x := ShootingStar.x s + real n * vx s,
                 ShootingStar.y := ShootingStar.y s + real n * vy s,
                 age := int n\<rparr>]
         else []))"
proof (intro conjI impI)
  show "age (fst (ShootingStar_update t)) = age t + 1"
    by (simp add: ShootingStar_update_eq)
  show "snd (ShootingStar_update t) = (age t + 1 < life t)"
    by (simp add: ShootingStar_update_eq)
  show "fst (shooting_loop ss) =
     map (\<lambda>s. fst (ShootingStar_update s)) (filter (\<lambda>s. age s + 1 < life s) ss)"
    by (rule shooting_loop_kept)
next
  assume a: "age s = 0 \<and> 0 < life s"
  then have "age s < life s" by simp
  from shooting_frames_single [OF this, of n] a
  show "shooting_frames n [s] =
        (if int n < life s
         then [s\<lparr>ShootingStar.x := ShootingStar.x s + real n * vx s,
                 ShootingStar.y := ShootingStar.y s + real n * vy s,
                 age := int n\<rparr>]
         else [])"
    by simp
qed

lemma streak_init: "ShootingStar_init WIDTH HEIGHT streak_rand = streak_star"
  by (simp add: ShootingStar_init_def uniform_def WIDTH_def HEIGHT_def)

theorem shooting_star_removed_at_lifetime_witness:
  "age streak_star = 0 \<and> 0 < life streak_star \<and>
   shooting_frames 79 [ShootingStar_init WIDTH HEIGHT streak_rand] =
     [streak_star\<lparr>ShootingStar.x := 454, age := 79\<rparr>] \<and>
   shooting_frames 80 [ShootingStar_init WIDTH HEIGHT streak_rand] = []"
  using shooting_star_removed_at_lifetime [of streak_star "[]" streak_star 79]
    shooting_star_removed_at_lifetime [of streak_star "[]" streak_star 80]
    streak_init
  by simp

lemma uniform_between:
  assumes "a \<le> b" and "unit u"
  shows "a \<le> uniform a b u" and "uniform a b u \<le> b"
  using uniform_range [OF assms] by simp_all

text \<open>
  C8 (as amended). A shooting star is spawned just outside one of the top, left and right
  screen edges, with drawn velocity and lifetime: 20 pixels beyond the chosen edge
  (\<open>y = -20\<close>, \<open>x = -20\<close> or \<open>x = WIDTH + 20\<close>), the other coordinate drawn from a range a
  quarter longer than the screen on each side, the velocity pointing into the screen and
  the lifetime between 80 and 160. Thereafter it moves in a straight line: each update
  adds \<open>(vx, vy)\<close> to the position and leaves \<open>(vx, vy)\<close> as it is.
\<close>

theorem shooting_spawn_and_motion:
  assumes "shooting_rand_ok rnd" and "s = ShootingStar_init WIDTH HEIGHT rnd"
  shows "(case r_edge rnd of
            EdgeTop \<Rightarrow>
              ShootingStar.y s = - 20 \<and>
              - WIDTH / 4 \<le> ShootingStar.x s \<and> ShootingStar.x s \<le> WIDTH * 1.25 \<and>
              - 6 \<le> vx s \<and> vx s \<le> 6 \<and> 6 \<le> vy s \<and> vy s \<le> 12
          | EdgeLeft \<Rightarrow>
              ShootingStar.x s = - 20 \<and>
              - HEIGHT / 4 \<le> ShootingStar.y s \<and> ShootingStar.y s \<le> HEIGHT * 1.25 \<and>
              6 \<le> vx s \<and> vx s \<le> 12 \<and> - 3 \<le> vy s \<and> vy s \<le> 3
          | EdgeRight \<Rightarrow>
              ShootingStar.x s = WIDTH + 20 \<and>
              - HEIGHT / 4 \<le> ShootingStar.y s \<and> ShootingStar.y s \<le> HEIGHT * 1.25 \<and>
              - 12 \<le> vx s \<and> vx s \<le> - 6 \<and> - 3 \<le> vy s \<and> vy s \<le> 3) \<and>
         80 \<le> life s \<and> life s \<le> 160 \<and> age s = 0 \<and>
         ShootingStar.x (fst (ShootingStar_update t)) = ShootingStar.x t + vx t \<and>
         ShootingStar.y (fst (ShootingStar_update t)) = ShootingStar.y t + vy t \<and>
         vx (fst (ShootingStar_update t)) = vx t \<and>
         vy (fst (ShootingStar_update t)) = vy t"
proof -
  have u: "unit (u_pos rnd)" "unit (u_vx rnd)" "unit (u_vy rnd)"
    and l: "80 \<le> r_life rnd" "r_life rnd \<le> 160"
    using assms(1) by (simp_all add: shooting_rand_ok_def)
  have px: "- WIDTH / 4 \<le> uniform (- WIDTH / 4) (WIDTH * 1.25) (u_pos rnd)"
    "uniform (- WIDTH / 4) (WIDTH * 1.25) (u_pos rnd) \<le> WIDTH * 1.25"
    using u(1) by (intro uniform_between; simp add: WIDTH_def)+
  have py: "- HEIGHT / 4 \<le> uniform (- HEIGHT / 4) (HEIGHT * 1.25) (u_pos rnd)"
    "uniform (- HEIGHT / 4) (HEIGHT * 1.25) (u_pos rnd) \<le> HEIGHT * 1.25"
    using u(1) by (intro uniform_between; simp add: HEIGHT_def)+
  have v1: "- 6 \<le> uniform (- 6) 6 (u_vx rnd)" "uniform (- 6) 6 (u_vx rnd) \<le> 6"
    using u(2) by (intro uniform_between; simp)+
  have v2: "6 \<le> uniform 6 12 (u_vy rnd)" "uniform 6 12 (u_vy rnd) \<le> 12"
    using u(3) by (intro uniform_between; simp)+
  have v3: "6 \<le> uniform 6 12 (u_vx rnd)" "uniform 6 12 (u_vx rnd) \<le> 12"
    using u(2) by (intro uniform_between; simp)+
  have v4: "- 3 \<le> uniform (- 3) 3 (u_vy rnd)" "uniform (- 3) 3 (u_vy rnd) \<le> 3"
    using u(3) by (intro uniform_between; simp)+
  have v5: "- 12 \<le> uniform (- 12) (- 6) (u_vx rnd)" "uniform (- 12) (- 6) (u_vx rnd) \<le> - 6"
    using u(2) by (intro uniform_between; simp)+
  have spawn: "(case r_edge rnd of
            EdgeTop \<Rightarrow>
              ShootingStar.y s = - 20 \<and>
              - WIDTH / 4 \<le> ShootingStar.x s \<and> ShootingStar.x s \<le> WIDTH * 1.25 \<and>
              - 6 \<le> vx s \<and> vx s \<le> 6 \<and> 6 \<le> vy s \<and> vy s \<le> 12
          | EdgeLeft \<Rightarrow>
              ShootingStar.x s = - 20 \<and>
              - HEIGHT / 4 \<le> ShootingStar.y s \<and> ShootingStar.y s \<le> HEIGHT * 1.25 \<and>
              6 \<le> vx s \<and> vx s \<le> 12 \<and> - 3 \<le> vy s \<and> vy s \<le> 3
          | EdgeRight \<Rightarrow>
              ShootingStar.x s = WIDTH + 20 \<and>
              - HEIGHT / 4 \<le> ShootingStar.y s \<and> ShootingStar.y s \<le> HEIGHT * 1.25 \<and>
              - 12 \<le> vx s \<and> vx s \<le> - 6 \<and> - 3 \<le> vy s \<and> vy s \<le> 3)"
  proof (cases "r_edge rnd")
    case EdgeTop
    then show ?thesis using px v1 v2 by (simp add: assms(2) ShootingStar_init_def)
  next
    case EdgeLeft
    then show ?thesis using py v3 v4 by (simp add: assms(2) ShootingStar_init_def)
  next
    case EdgeRight
    then show ?thesis using py v5 v4 by (simp add: assms(2) ShootingStar_init_def)
  qed
  have lifeage: "80 \<le> life s \<and> life s \<le> 160 \<and> age s = 0"
    using l by (cases "r_edge rnd") (simp_all add: assms(2) ShootingStar_init_def)
  have move: "ShootingStar.x (fst (ShootingStar_update t)) = ShootingStar.x t + vx t \<and>
         ShootingStar.y (fst (ShootingStar_update t)) = ShootingStar.y t + vy t \<and>
         vx (fst (ShootingStar_update t)) = vx t \<and>
         vy (fst (ShootingStar_update t)) = vy t"
    by (simp add: ShootingStar_update_eq)
  from spawn lifeage move show ?thesis by blast
qed

theorem shooting_spawn_and_motion_witness:
  "shooting_rand_ok streak_rand \<and> streak_star = ShootingStar_init WIDTH HEIGHT streak_rand \<and>
   ShootingStar.x streak_star = - 20 \<and>
   - HEIGHT / 4 \<le> ShootingStar.y streak_star \<and> ShootingStar.y streak_star \<le> HEIGHT * 1.25 \<and>
   6 \<le> vx streak_star \<and> vx streak_star \<le> 12 \<and>
   80 \<le> life streak_star \<and> life streak_star \<le> 160 \<and>
   ShootingStar.x (fst (ShootingStar_update streak_star)) = - 14 \<and>
   ShootingStar.y (fst (ShootingStar_update streak_star)) = 100"
  using shooting_spawn_and_motion [of streak_rand streak_star streak_star] streak_init
  by (simp add: shooting_rand_ok_def unit_def)

text \<open>
  The claim as stated fails: a star spawned at the top edge starts at \<open>(100, -20)\<close>, above
  the screen and so on none of its edges.
\<close>

theorem shooting_spawn_counterexample:
  "ShootingStar_init WIDTH HEIGHT top_rand = top_star \<and>
   ShootingStar.x top_star = 100 \<and> ShootingStar.y top_star = - 20 \<and>
   \<not> (0 \<le> ShootingStar.x top_star \<and> ShootingStar.x top_star \<le> WIDTH \<and>
      0 \<le> ShootingStar.y top_star \<and> ShootingStar.y top_star \<le> HEIGHT \<and>
      (ShootingStar.x top_star = 0 \<or> ShootingStar.x top_star = WIDTH \<or>
       ShootingStar.y top_star = 0 \<or> ShootingStar.y top_star = HEIGHT))"
  by (simp add: ShootingStar_init_def uniform_def WIDTH_def HEIGHT_def)

subsection \<open>The audio level\<close>

lemma clamp_range: "a \<le> b \<Longrightarrow> a \<le> clamp v a b \<and> clamp v a b \<le> b"
  by (simp add: clamp_def)

lemma callback_level:
  "0 \<le> latest_level (AudioAnalyzer_callback fft_mags a data) \<and>
   latest_level (AudioAnalyzer_callback fft_mags a data) \<le> 1.5"
proof (cases "fft_mags data")
  case None
  then show ?thesis
    using clamp_range [of 0 "1.5"] by (simp add: AudioAnalyzer_callback_def Let_def)
next
  case (Some mags)
  then show ?thesis
    using clamp_range [of 0 "1.5"] by (simp add: AudioAnalyzer_callback_def Let_def)
qed

lemma run_callbacks_level:
  "0 \<le> latest_level a \<and> latest_level a \<le> 1.5 \<Longrightarrow>
   0 \<le> latest_level (run_callbacks fft_mags a blocks) \<and>
   latest_level (run_callbacks fft_mags a blocks) \<le> 1.5"
proof (induction blocks arbitrary: a)
  case Nil
  then show ?case by (simp add: run_callbacks_def)
next
  case (Cons d blocks)
  have "run_callbacks fft_mags a (d # blocks) =
        run_callbacks fft_mags (AudioAnalyzer_callback fft_mags a d) blocks"
    by (simp add: run_callbacks_def)
  with Cons.IH [OF callback_level [of fft_mags a d]] show ?case by simp
qed

lemma AudioAnalyzer_init_level:
  "AudioAnalyzer_init oc = (out, Inr a) \<Longrightarrow> latest_level a = 0"
  by (cases oc) (auto simp add: AudioAnalyzer_init_def)

text \<open>
  C9. The level the main loop reads is within \<open>[0, 1.5]\<close>: \<open>get_level\<close> of a newly constructed
  analyzer is 0, and after any sequence of callbacks, whichever of the FFT branch and the
  RMS fallback each one took, it is between 0 and 1.5.
\<close>

theorem audio_level_clamped:
  assumes "AudioAnalyzer_init oc = (out, Inr a)"
  shows "get_level a = 0 \<and>
         0 \<le> get_level (run_callbacks fft_mags a blocks) \<and>
         get_level (run_callbacks fft_mags a blocks) \<le> 1.5"
proof -
  have z: "latest_level a = 0" using assms by (rule AudioAnalyzer_init_level)
  then have "0 \<le> latest_level a \<and> latest_level a \<le> 1.5" by simp
  from run_callbacks_level [OF this, of fft_mags blocks] z show ?thesis
    by (simp add: get_level_def)
qed

theorem audio_level_clamped_witness:
  "AudioAnalyzer_init StreamStarted =
     ([], Inr \<lparr>block = 1024, sr = 44100, latest_level = 0, running = True\<rparr>) \<and>
   get_level \<lparr>block = 1024, sr = 44100, latest_level = 0, running = True\<rparr> = 0 \<and>
   0 \<le> get_level (run_callbacks (\<lambda>d. if length d = 2 then None else Some d)
          \<lparr>block = 1024, sr = 44100, latest_level = 0, running = True\<rparr> [[3, 4], [1, 2, 3]]) \<and>
   get_level (run_callbacks (\<lambda>d. if length d = 2 then None else Some d)
          \<lparr>block = 1024, sr = 44100, latest_level = 0, running = True\<rparr> [[3, 4], [1, 2, 3]]) \<le> 1.5"
proof -
  have i: "AudioAnalyzer_init StreamStarted =
     ([], Inr \<lparr>block = 1024, sr = 44100, latest_level = 0, running = True\<rparr>)"
    by (simp add: AudioAnalyzer_init_def AUDIO_BLOCK_def AUDIO_SAMPLERATE_def)
  from audio_level_clamped [OF i, of "\<lambda>d. if length d = 2 then None else Some d" "[[3, 4], [1, 2, 3]]"] i
  show ?thesis by simp
qed

subsection \<open>Events\<close>

text \<open>
  C7. Pressing the trails key while trails are enabled turns trails off and, in the same
  event-handling step, resets every pixel of the trail surface to fully transparent;
  the other mode flags, and everything else in the state, stay as they were.
\<close>

theorem trails_key_clears_buffer:
  assumes "trails_enabled m"
  shows "handle_event avail m (KEYDOWN K_t) =
           m\<lparr>trails_enabled := False, trail_buf := (\<lambda>p. (0, 0, 0, 0))\<rparr> \<and>
         \<not> trails_enabled (handle_event avail m (KEYDOWN K_t)) \<and>
         (\<forall>p. trail_buf (handle_event avail m (KEYDOWN K_t)) p = (0, 0, 0, 0)) \<and>
         color_mode (handle_event avail m (KEYDOWN K_t)) = color_mode m \<and>
         spiral_enabled (handle_event avail m (KEYDOWN K_t)) = spiral_enabled m \<and>
         audio_enabled (handle_event avail m (KEYDOWN K_t)) = audio_enabled m \<and>
         main_vars.running (handle_event avail m (KEYDOWN K_t)) = main_vars.running m"
proof -
  have "handle_event avail m (KEYDOWN K_t) =
           m\<lparr>trails_enabled := False, trail_buf := (\<lambda>p. (0, 0, 0, 0))\<rparr>"
    using assms by (simp add: handle_event_def Let_def fill_def)
  then show ?thesis by simp
qed

theorem trails_key_clears_buffer_witness:
  "trails_enabled ((main_init False StreamStarted [])\<lparr>trail_buf := (\<lambda>p. (9, 9, 9, 255))\<rparr>) \<and>
   \<not> trails_enabled (handle_event False
        ((main_init False StreamStarted [])\<lparr>trail_buf := (\<lambda>p. (9, 9, 9, 255))\<rparr>) (KEYDOWN K_t)) \<and>
   trail_buf (handle_event False
        ((main_init False StreamStarted [])\<lparr>trail_buf := (\<lambda>p. (9, 9, 9, 255))\<rparr>) (KEYDOWN K_t)) (3, 4)
     = (0, 0, 0, 0) \<and>
   color_mode (handle_event False
        ((main_init False StreamStarted [])\<lparr>trail_buf := (\<lambda>p. (9, 9, 9, 255))\<rparr>) (KEYDOWN K_t))"
proof -
  have t: "trails_enabled ((main_init False StreamStarted [])\<lparr>trail_buf := (\<lambda>p. (9, 9, 9, 255))\<rparr>)"
    by (simp add: main_init_def audio_setup_def)
  have c: "color_mode ((main_init False StreamStarted [])\<lparr>trail_buf := (\<lambda>p. (9, 9, 9, 255))\<rparr>)"
    by (simp add: main_init_def audio_setup_def)
  from trails_key_clears_buffer [OF t, of False] t c show ?thesis by simp
qed

subsection \<open>Audio set-up\<close>

text \<open>
  C4. When the device fails inside the constructor, the constructor prints its message
  and returns an analyzer that is not running; \<open>main\<close> tests the object, which is true, and
  turns audio sync on. The level stays 0, so the speed multiplier of a frame is unchanged.
\<close>

theorem audio_init_failure_enables_sync:
  "audio_setup True (StreamRaises ''no device'') =
     (True,
      Some \<lparr>block = 1024, sr = 44100, latest_level = 0, running = False\<rparr>,
      [''Audio init failed: no device'']) \<and>
   audio_enabled (main_init True (StreamRaises ''no device'') []) \<and>
   audio_influence (main_init True (StreamRaises ''no device'') []) 1 = (0, 1) \<and>
   audio_setup True ConstructorRaises = (False, None, []) \<and>
   \<not> audio_enabled (main_init True ConstructorRaises [])"
  by (simp add: audio_setup_def main_init_def AudioAnalyzer_init_def AUDIO_BLOCK_def
      AUDIO_SAMPLERATE_def audio_influence_def get_level_def clamp_def)

subsection \<open>Draw coordinates\<close>

lemma py_int_on_screen:
  assumes "on_screen (sx, sy)"
  shows "on_screen (of_int (py_int sx), of_int (py_int sy))"
proof -
  from assms have a: "0 \<le> sx" "sx < WIDTH" "0 \<le> sy" "sy < HEIGHT"
    by (simp_all add: on_screen_def)
  have fx: "of_int \<lfloor>sx\<rfloor> \<le> sx" and fy: "of_int \<lfloor>sy\<rfloor> \<le> sy"
    by (rule of_int_floor_le)+
  have "of_int \<lfloor>sx\<rfloor> < WIDTH" using fx a(2) by (rule le_less_trans)
  moreover have "of_int \<lfloor>sy\<rfloor> < HEIGHT" using fy a(4) by (rule le_less_trans)
  ultimately show ?thesis using a by (simp add: on_screen_def py_int_def)
qed

lemma star_draws_off_screen:
  "\<not> on_screen (sx, sy) \<Longrightarrow> star_draws m st sx sy sz = Inr []"
  by (auto simp add: star_draws_def on_screen_def)

lemma star_draws_on_screen:
  assumes "on_screen (sx, sy)"
  shows "\<exists>draws. star_draws m st sx sy sz = Inr draws \<and> draws \<noteq> [] \<and>
           (\<forall>d \<in> set draws.
              (\<exists>sf col rad. d = Circle sf col (py_int sx, py_int sy) rad) \<or>
              (\<exists>col a wd. d = Line TrailSurf col a (of_int (py_int sx), of_int (py_int sy)) wd))"
proof -
  from assms have g: "0 \<le> sx \<and> sx < WIDTH \<and> 0 \<le> sy \<and> sy < HEIGHT"
    by (simp add: on_screen_def)
  show ?thesis
  proof (cases "trails_enabled m")
    case True
    with g show ?thesis
      by (auto simp add: star_draws_def color_gradient_Finite Let_def split: prod.splits)
  next
    case False
    with g show ?thesis
      by (auto simp add: star_draws_def color_gradient_Finite Let_def)
  qed
qed

lemma star_draws_heads:
  "\<exists>draws. star_draws m st sx sy sz = Inr draws \<and>
     (draws \<noteq> [] \<longleftrightarrow> on_screen (sx, sy)) \<and>
     (\<forall>d \<in> set draws.
        case d of
          Circle sf col c rad \<Rightarrow>
            c = (py_int sx, py_int sy) \<and> on_screen (of_int (fst c), of_int (snd c))
        | Line sf col a b wd \<Rightarrow>
            b = (of_int (py_int sx), of_int (py_int sy)) \<and> on_screen b)"
proof (cases "on_screen (sx, sy)")
  case False
  then show ?thesis by (simp add: star_draws_off_screen)
next
  case True
  from star_draws_on_screen [OF True, of m st sz] obtain draws where
    d: "star_draws m st sx sy sz = Inr draws" "draws \<noteq> []"
    and each: "\<forall>d \<in> set draws.
              (\<exists>sf col rad. d = Circle sf col (py_int sx, py_int sy) rad) \<or>
              (\<exists>col a wd. d = Line TrailSurf col a (of_int (py_int sx), of_int (py_int sy)) wd)"
    by blast
  have on: "on_screen (of_int (py_int sx), of_int (py_int sy))"
    using True by (rule py_int_on_screen)
  have "\<forall>d \<in> set draws.
        case d of
          Circle sf col c rad \<Rightarrow>
            c = (py_int sx, py_int sy) \<and> on_screen (of_int (fst c), of_int (snd c))
        | Line sf col a b wd \<Rightarrow>
            b = (of_int (py_int sx), of_int (py_int sy)) \<and> on_screen b"
    using each on by auto
  with d True show ?thesis by simp
qed

text \<open>
  C2 (as amended). A star is drawn in a frame only when its current projected point
  \<open>(sx, sy)\<close>, the one its update returned, lies within \<open>[0, WIDTH) \<times> [0, HEIGHT)\<close>: the
  frame's draw calls for the star are empty exactly when the point is outside, and the
  centre of every circle drawn for it and the head end of every trail line are
  \<open>(int(sx), int(sy))\<close>, which lies within these bounds.
\<close>

theorem star_draws_head_on_screen:
  assumes "Star_update star (star_speed m speed_mult audio_level (f_flicker fr) star)
             (steer_x m) (steer_y m) (rotation m * 0.4) (spiral m * 0.6) (f_reset fr) (f_far fr)
           = Inr (star', (sx, sy, sz))"
  shows "\<exists>draws. star_step m speed_mult audio_level star fr = Inr (star', draws) \<and>
           (draws \<noteq> [] \<longleftrightarrow> on_screen (sx, sy)) \<and>
           (\<forall>d \<in> set draws.
              case d of
                Circle sf col c rad \<Rightarrow>
                  c = (py_int sx, py_int sy) \<and> on_screen (of_int (fst c), of_int (snd c))
              | Line sf col a b wd \<Rightarrow>
                  b = (of_int (py_int sx), of_int (py_int sy)) \<and> on_screen b)"
proof -
  from star_draws_heads [of m star' sx sy sz] obtain draws where
    d: "star_draws m star' sx sy sz = Inr draws"
    and rest: "(draws \<noteq> [] \<longleftrightarrow> on_screen (sx, sy)) \<and>
     (\<forall>d \<in> set draws.
        case d of
          Circle sf col c rad \<Rightarrow>
            c = (py_int sx, py_int sy) \<and> on_screen (of_int (fst c), of_int (snd c))
        | Line sf col a b wd \<Rightarrow>
            b = (of_int (py_int sx), of_int (py_int sy)) \<and> on_screen b)"
    by blast
  have "star_step m speed_mult audio_level star fr = Inr (star', draws)"
    using assms d by (simp add: star_step_def Let_def)
  with rest show ?thesis by blast
qed

lemma edge_frame1:
  "star_step main_start 1 0 (Star_init WIDTH HEIGHT edge_rand) frame_rand = Inr (edge_star1, [])"
  by (simp add: star_step_def star_speed_def star_draws_def main_init_def audio_setup_def
      Star_init_def Star_reset_def Star_update_def
      Star_rotate_def Star_spiral_def Star_approach_def Star_project_def Let_def
      uniform_def WIDTH_def HEIGHT_def TRAIL_LENGTH_def BASE_SPEED_def)

lemma edge_update2:
  "Star_update edge_star1 (star_speed main_steered 1 0 (f_flicker frame_rand) edge_star1)
     (steer_x main_steered) (steer_y main_steered) (rotation main_steered * 0.4)
     (spiral main_steered * 0.6) (f_reset frame_rand) (f_far frame_rand)
   = Inr (edge_star2, (28369 / 91028, 350, 495.19232))"
  by (simp add: star_speed_def main_init_def audio_setup_def
      Star_reset_def Star_update_def
      Star_rotate_def Star_spiral_def Star_approach_def Star_project_def Let_def
      uniform_def WIDTH_def HEIGHT_def TRAIL_LENGTH_def BASE_SPEED_def)

lemma edge_frame2:
  "star_step main_steered 1 0 edge_star1 frame_rand =
     Inr (edge_star2,
          [Circle TrailSurf [240, 243, 250, 200] (0, 350) 2,
           Line TrailSurf [240, 243, 250, 110] (- 1, 350) (0, 350) 2])"
  by (simp add: star_step_def star_speed_def star_draws_def main_init_def audio_setup_def
      Star_init_def Star_reset_def Star_update_def
      Star_rotate_def Star_spiral_def Star_approach_def Star_project_def Let_def
      uniform_def WIDTH_def HEIGHT_def TRAIL_LENGTH_def BASE_SPEED_def
      clamp_def color_gradient_Finite gradient_segments_def
      blue_white_def white_yellow_def yellow_red_def lerp_def
      py_int_def rgb_def red_def green_def blue_def)

lemma streak_frame:
  "shooting_loop [streak_star] =
     ([streak_star\<lparr>ShootingStar.x := - 14, age := 1\<rparr>],
      [Line Screen [255, 220, 180] (- 14, 100) (- 32, 100) 2,
       Circle Screen [255, 255, 255] (- 14, 100) 3])"
  by (simp add: ShootingStar_update_def Let_def rgb_def red_def green_def blue_def py_int_def)

theorem star_draws_head_on_screen_witness:
  "Star_update edge_star1 (star_speed main_steered 1 0 (f_flicker frame_rand) edge_star1)
     (steer_x main_steered) (steer_y main_steered) (rotation main_steered * 0.4)
     (spiral main_steered * 0.6) (f_reset frame_rand) (f_far frame_rand)
   = Inr (edge_star2, (28369 / 91028, 350, 495.19232)) \<and>
   on_screen (28369 / 91028, 350) \<and>
   (\<exists>draws. star_step main_steered 1 0 edge_star1 frame_rand = Inr (edge_star2, draws) \<and>
            draws \<noteq> [])"
proof -
  have on: "on_screen (28369 / 91028, 350)"
    by (simp add: on_screen_def WIDTH_def HEIGHT_def)
  from star_draws_head_on_screen [OF edge_update2] obtain draws where
    "star_step main_steered 1 0 edge_star1 frame_rand = Inr (edge_star2, draws)"
    "draws \<noteq> [] \<longleftrightarrow> on_screen (28369 / 91028, 350)"
    by blast
  with on have "\<exists>draws. star_step main_steered 1 0 edge_star1 frame_rand = Inr (edge_star2, draws) \<and>
            draws \<noteq> []"
    by blast
  with edge_update2 on show ?thesis by blast
qed

text \<open>
  The claim as stated fails twice. A shooting star is drawn with no test on its
  position: the one spawned at the left edge is drawn in its first frame at \<open>x = -14\<close>.
  And the tail end of a trail line is an earlier projected point, which is not tested:
  the star beyond the left edge in one frame is drawn in the next with a line from
  \<open>x = -1\<close>.
\<close>

theorem draw_coordinates_counterexample:
  "ShootingStar_init WIDTH HEIGHT streak_rand = streak_star \<and>
   snd (shooting_loop [streak_star]) =
     [Line Screen [255, 220, 180] (- 14, 100) (- 32, 100) 2,
      Circle Screen [255, 255, 255] (- 14, 100) 3] \<and>
   \<not> list_all on_screen (concat (map draw_coords (snd (shooting_loop [streak_star])))) \<and>
   \<not> on_screen (- 14, 100) \<and>
   star_step main_start 1 0 (Star_init WIDTH HEIGHT edge_rand) frame_rand = Inr (edge_star1, []) \<and>
   star_step main_steered 1 0 edge_star1 frame_rand =
     Inr (edge_star2,
          [Circle TrailSurf [240, 243, 250, 200] (0, 350) 2,
           Line TrailSurf [240, 243, 250, 110] (- 1, 350) (0, 350) 2]) \<and>
   draw_coords (Line TrailSurf [240, 243, 250, 110] (- 1, 350) (0, 350) 2) = [(- 1, 350), (0, 350)] \<and>
   \<not> on_screen (- 1, 350)"
  using streak_init streak_frame edge_frame1 edge_frame2
  by (simp add: on_screen_def)

end
